theory Spec2Isabelle
  imports Main "HOL-Library.Word"
begin

unbundle bit_operations_syntax

section \<open>Data model (types/storage.ts, types/raindrop.ts)\<close>

text \<open>
  The interfaces of \<^verbatim>\<open>types/storage.ts\<close> become records. Field names carry a short
  prefix where two interfaces share a name (\<^verbatim>\<open>id\<close>, \<^verbatim>\<open>firefoxId\<close>, \<^verbatim>\<open>title\<close>, ...).
  An optional field (\<^verbatim>\<open>x?: T\<close>) is an \<open>option\<close>; a JavaScript number that holds an
  identifier, a counter or a timestamp is an \<open>int\<close>; a string is a \<open>string\<close>.
\<close>

datatype sync_status = Synced | Pending | Conflict | Error

record BookmarkLink =
  l_id :: string
  l_firefoxId :: string
  l_raindropId :: int
  l_url :: string
  l_title :: string
  l_lastModified :: int
  l_contentHash :: string
  l_syncStatus :: sync_status
  l_mappingId :: string
  l_errorMessage :: "string option"

record FolderMapping =
  m_id :: string
  m_firefoxFolderId :: string
  m_raindropCollectionId :: int
  m_folderName :: string
  m_raindropCollectionName :: string
  m_parentMappingId :: "string option"
  m_depth :: int
  m_lastSync :: int
  m_syncChildren :: bool

datatype op_type = Create | Update | Delete | Move
datatype op_source = SrcFirefox | SrcRaindrop
datatype entity_type = Bookmark | Folder

record SyncOperationData =
  d_firefoxId :: "string option"
  d_raindropId :: "int option"
  d_url :: "string option"
  d_title :: "string option"
  d_collectionId :: "int option"
  d_parentFolderId :: "string option"
  d_oldCollectionId :: "int option"
  d_newCollectionId :: "int option"
  d_mappingId :: "string option"

record SyncOperation =
  op_id :: string
  op_type :: op_type
  op_source :: op_source
  op_entityType :: entity_type
  op_data :: SyncOperationData
  op_timestamp :: int
  op_retries :: int
  op_maxRetries :: int
  op_lastError :: "string option"

record SyncQueue =
  pending :: "SyncOperation list"
  failed :: "SyncOperation list"

record SyncError =
  e_timestamp :: int
  e_operation :: string
  e_message :: string
  e_details :: "string option"

datatype last_sync_status = Success | Partial | Failed | Never

record SyncStats =
  totalSynced :: int
  pendingOperations :: int
  failedOperations :: int
  lastSyncTime :: int
  lastSyncStatus :: last_sync_status
  errors :: "SyncError list"

text \<open>Of the remote item (\<^verbatim>\<open>Raindrop\<close>) the synchronisation code reads three fields only.\<close>

record Raindrop =
  r_id :: int
  r_link :: string
  r_title :: string

text \<open>The object literal handed to \<^verbatim>\<open>updateRaindrop\<close>: every key is optional.\<close>

record RaindropUpdates =
  ru_link :: "string option"
  ru_title :: "string option"
  ru_collection :: "int option"

section \<open>Outcomes and the outside world\<close>

text \<open>
  A promise either resolves with a value or rejects with an error. What is thrown is
  taken to be an \<^verbatim>\<open>Error\<close> object, given here by its message (\<^verbatim>\<open>error.message\<close>).
\<close>

datatype 'a result = Ok 'a | Threw string

text \<open>
  Calls that leave the module (the remote HTTP API of \<^verbatim>\<open>raindropApi\<close>, the browser's
  bookmark store, the id generator, the change observer's guard) are recorded in a trace,
  in the order in which they are issued. What such a call answers is not decided by this
  repository: it is a parameter of the model (record \<open>env\<close> below), and may depend on
  everything that was issued before.
\<close>

datatype ext_call =
    CreateRaindrop string string int
  | UpdateRaindrop int RaindropUpdates
  | DeleteRaindrop int
  | GetRaindrop int
  | GetAllRaindropsInCollection int
  | BookmarksCreate string string string
  | BookmarksUpdate string string string
  | BookmarksRemove string
  | GenerateId
  | SetSyncing bool

text \<open>
  The state: the records of \<^verbatim>\<open>browser.storage.local\<close> that the code reads and writes
  (\<open>None\<close> when the key is absent), the two module-level default objects that the
  accessors hand out by reference (\<^verbatim>\<open>DEFAULT_SYNC_QUEUE\<close>, and the \<^verbatim>\<open>errors\<close> array of
  \<^verbatim>\<open>DEFAULT_SYNC_STATS\<close>, which a shallow copy shares), and the trace of outside calls.
  \<^verbatim>\<open>browser.storage.local.get\<close> and \<^verbatim>\<open>set\<close> are taken to succeed, so the \<^verbatim>\<open>catch\<close>
  branches of the accessors are not part of the model.
\<close>

record world =
  bookmark_links :: "BookmarkLink list option"
  folder_mappings :: "FolderMapping list option"
  sync_queue :: "SyncQueue option"
  sync_stats :: "SyncStats option"
  queue_processing_lock :: "int option"
  default_sync_queue :: SyncQueue
  default_sync_stats_errors :: "SyncError list"
  trace :: "ext_call list"

section \<open>Link and mapping registry (background/storage.ts)\<close>

text \<open>
  \<^verbatim>\<open>xs[index] = { ...xs[index], ...updates }\<close> with \<^verbatim>\<open>index\<close> from \<^verbatim>\<open>findIndex\<close>: the first
  element that satisfies the test is replaced. A partial record is a function on records.
\<close>

fun update_first :: "('a \<Rightarrow> bool) \<Rightarrow> ('a \<Rightarrow> 'a) \<Rightarrow> 'a list \<Rightarrow> 'a list" where
  "update_first P f [] = []"
| "update_first P f (x # xs) = (if P x then f x # xs else x # update_first P f xs)"

definition getFolderMappings :: "world \<Rightarrow> FolderMapping list" where
  "getFolderMappings w = (case folder_mappings w of Some ms \<Rightarrow> ms | None \<Rightarrow> [])"

definition saveFolderMappings :: "FolderMapping list \<Rightarrow> world \<Rightarrow> world" where
  "saveFolderMappings ms w = w\<lparr>folder_mappings := Some ms\<rparr>"

definition addFolderMapping :: "FolderMapping \<Rightarrow> world \<Rightarrow> FolderMapping list result \<times> world" where
  "addFolderMapping mapping w =
     (let mappings = getFolderMappings w;
          exists = find (\<lambda>m. m_firefoxFolderId m = m_firefoxFolderId mapping \<or>
                              m_raindropCollectionId m = m_raindropCollectionId mapping) mappings
      in case exists of
           Some _ \<Rightarrow> (Threw ''Mapping already exists for this folder or collection'', w)
         | None \<Rightarrow> (Ok (mappings @ [mapping]), saveFolderMappings (mappings @ [mapping]) w))"

definition findMappingByFirefoxId :: "string \<Rightarrow> world \<Rightarrow> FolderMapping option" where
  "findMappingByFirefoxId firefoxFolderId w =
     find (\<lambda>m. m_firefoxFolderId m = firefoxFolderId) (getFolderMappings w)"

definition updateFolderMapping ::
  "string \<Rightarrow> (FolderMapping \<Rightarrow> FolderMapping) \<Rightarrow> world \<Rightarrow> FolderMapping option \<times> world" where
  "updateFolderMapping mappingId updates w =
     (let mappings = getFolderMappings w
      in case find (\<lambda>m. m_id m = mappingId) mappings of
           None \<Rightarrow> (None, w)
         | Some m \<Rightarrow> (Some (updates m),
                      saveFolderMappings (update_first (\<lambda>m. m_id m = mappingId) updates mappings) w))"

definition getBookmarkLinks :: "world \<Rightarrow> BookmarkLink list" where
  "getBookmarkLinks w = (case bookmark_links w of Some ls \<Rightarrow> ls | None \<Rightarrow> [])"

definition saveBookmarkLinks :: "BookmarkLink list \<Rightarrow> world \<Rightarrow> world" where
  "saveBookmarkLinks ls w = w\<lparr>bookmark_links := Some ls\<rparr>"

definition addBookmarkLink :: "BookmarkLink \<Rightarrow> world \<Rightarrow> world" where
  "addBookmarkLink link w =
     (let links = getBookmarkLinks w;
          exists = list_ex (\<lambda>l. l_firefoxId l = l_firefoxId link \<or>
                                 l_raindropId l = l_raindropId link) links
      in if \<not> exists then saveBookmarkLinks (links @ [link]) w else w)"

definition updateBookmarkLink ::
  "string \<Rightarrow> (BookmarkLink \<Rightarrow> BookmarkLink) \<Rightarrow> world \<Rightarrow> BookmarkLink option \<times> world" where
  "updateBookmarkLink linkId updates w =
     (let links = getBookmarkLinks w
      in case find (\<lambda>l. l_id l = linkId) links of
           None \<Rightarrow> (None, w)
         | Some l \<Rightarrow> (Some (updates l),
                      saveBookmarkLinks (update_first (\<lambda>l. l_id l = linkId) updates links) w))"

definition removeBookmarkLink :: "string \<Rightarrow> world \<Rightarrow> world" where
  "removeBookmarkLink linkId w =
     saveBookmarkLinks (filter (\<lambda>l. l_id l \<noteq> linkId) (getBookmarkLinks w)) w"

text \<open>
  \<^verbatim>\<open>findBookmarkLink(firefoxId?, raindropId?)\<close> tests its arguments for truthiness: an
  absent or empty string and an absent or zero number are skipped.
\<close>

definition truthy_str :: "string option \<Rightarrow> bool" where
  "truthy_str s = (case s of None \<Rightarrow> False | Some x \<Rightarrow> x \<noteq> [])"

definition truthy_num :: "int option \<Rightarrow> bool" where
  "truthy_num n = (case n of None \<Rightarrow> False | Some x \<Rightarrow> x \<noteq> 0)"

definition findBookmarkLink :: "string option \<Rightarrow> int option \<Rightarrow> world \<Rightarrow> BookmarkLink option" where
  "findBookmarkLink firefoxId raindropId w =
     (let links = getBookmarkLinks w;
          byFirefox = (if truthy_str firefoxId
                       then find (\<lambda>l. Some (l_firefoxId l) = firefoxId) links else None)
      in case byFirefox of
           Some l \<Rightarrow> Some l
         | None \<Rightarrow> (if truthy_num raindropId
                     then find (\<lambda>l. Some (l_raindropId l) = raindropId) links else None))"

definition getBookmarkLinksForMapping :: "string \<Rightarrow> world \<Rightarrow> BookmarkLink list" where
  "getBookmarkLinksForMapping mappingId w =
     filter (\<lambda>l. l_mappingId l = mappingId) (getBookmarkLinks w)"

section \<open>Sync statistics (background/storage.ts)\<close>

definition DEFAULT_SYNC_STATS :: "SyncError list \<Rightarrow> SyncStats" where
  "DEFAULT_SYNC_STATS errs =
     \<lparr>totalSynced = 0, pendingOperations = 0, failedOperations = 0, lastSyncTime = 0,
      lastSyncStatus = Never, errors = errs\<rparr>"

definition getSyncStats :: "world \<Rightarrow> SyncStats" where
  "getSyncStats w =
     (let stats = (case sync_stats w of
                     Some s \<Rightarrow> s
                   | None \<Rightarrow> DEFAULT_SYNC_STATS (default_sync_stats_errors w));
          links = (case bookmark_links w of Some ls \<Rightarrow> ls | None \<Rightarrow> [])
      in stats\<lparr>totalSynced := int (length links)\<rparr>)"

text \<open>
  \<^verbatim>\<open>updateSyncStats(updates)\<close> stores \<^verbatim>\<open>{ ...current, ...updates }\<close>; the partial record
  is a function on statistics.
\<close>

definition updateSyncStats :: "(SyncStats \<Rightarrow> SyncStats) \<Rightarrow> world \<Rightarrow> world" where
  "updateSyncStats updates w = w\<lparr>sync_stats := Some (updates (getSyncStats w))\<rparr>"

text \<open>
  \<^verbatim>\<open>addSyncError\<close> prepends to the array it got from \<^verbatim>\<open>getSyncStats\<close> in place
  (\<^verbatim>\<open>unshift\<close>). When no statistics are stored, that array is the one of
  \<^verbatim>\<open>DEFAULT_SYNC_STATS\<close>. The trimmed array is a new one (\<^verbatim>\<open>slice\<close>). The record passed
  on to \<^verbatim>\<open>updateSyncStats\<close> has every field, so it overrides the second read entirely.
\<close>

definition addSyncError :: "SyncError \<Rightarrow> world \<Rightarrow> world" where
  "addSyncError error w =
     (let stats = getSyncStats w;
          unshifted = error # errors stats;
          w1 = (if sync_stats w = None then w\<lparr>default_sync_stats_errors := unshifted\<rparr> else w);
          stats1 = stats\<lparr>errors := (if length unshifted > 50 then take 50 unshifted else unshifted)\<rparr>
      in updateSyncStats (\<lambda>current. stats1) w1)"

section \<open>Operation queue storage (background/storage.ts)\<close>

text \<open>
  \<^verbatim>\<open>getQueue\<close> answers the stored queue, or the object \<^verbatim>\<open>DEFAULT_SYNC_QUEUE\<close> itself
  when nothing is stored. The functions below change the object they got and then save
  it, so with nothing stored they change the default object as well.
\<close>

definition getQueue :: "world \<Rightarrow> SyncQueue" where
  "getQueue w = (case sync_queue w of Some q \<Rightarrow> q | None \<Rightarrow> default_sync_queue w)"

definition mutate_and_save_queue :: "SyncQueue \<Rightarrow> world \<Rightarrow> world" where
  "mutate_and_save_queue q w =
     w\<lparr>sync_queue := Some q,
       default_sync_queue := (if sync_queue w = None then q else default_sync_queue w)\<rparr>"

definition same_key :: "SyncOperation \<Rightarrow> SyncOperation \<Rightarrow> bool" where
  "same_key op operation \<longleftrightarrow>
     op_type op = op_type operation \<and>
     op_source op = op_source operation \<and>
     d_firefoxId (op_data op) = d_firefoxId (op_data operation) \<and>
     d_raindropId (op_data op) = d_raindropId (op_data operation)"

definition addToQueue :: "SyncOperation \<Rightarrow> world \<Rightarrow> world" where
  "addToQueue operation w =
     (let queue = getQueue w
      in case find (\<lambda>op. same_key op operation) (pending queue) of
           None \<Rightarrow> mutate_and_save_queue (queue\<lparr>pending := pending queue @ [operation]\<rparr>) w
         | Some _ \<Rightarrow> w)"

definition removeFromQueue :: "string \<Rightarrow> world \<Rightarrow> world" where
  "removeFromQueue operationId w =
     (let queue = getQueue w
      in mutate_and_save_queue
           (queue\<lparr>pending := filter (\<lambda>op. op_id op \<noteq> operationId) (pending queue),
                  failed := filter (\<lambda>op. op_id op \<noteq> operationId) (failed queue)\<rparr>) w)"

definition MAX_FAILED_QUEUE :: nat where
  "MAX_FAILED_QUEUE = 100"

text \<open>\<^verbatim>\<open>xs.slice(-n)\<close>: the last \<open>n\<close> elements, all of them when there are fewer.\<close>

definition slice_last :: "nat \<Rightarrow> 'a list \<Rightarrow> 'a list" where
  "slice_last n xs = drop (length xs - n) xs"

text \<open>
  \<^verbatim>\<open>moveToFailed\<close> changes the operation it found inside the pending array, so the array
  holds the raised counter whether or not the operation moves on to \<^verbatim>\<open>failed\<close>.
\<close>

definition record_failure :: "string \<Rightarrow> SyncOperation \<Rightarrow> SyncOperation" where
  "record_failure errorMessage operation =
     operation\<lparr>op_retries := op_retries operation + 1, op_lastError := Some errorMessage\<rparr>"

definition moveToFailed :: "string \<Rightarrow> string \<Rightarrow> world \<Rightarrow> world" where
  "moveToFailed operationId errorMessage w =
     (let queue = getQueue w
      in case find (\<lambda>op. op_id op = operationId) (pending queue) of
           None \<Rightarrow> w
         | Some found \<Rightarrow>
             (let operation = record_failure errorMessage found;
                  queue1 = queue\<lparr>pending := update_first (\<lambda>op. op_id op = operationId)
                                                (\<lambda>_. operation) (pending queue)\<rparr>;
                  queue2 =
                    (if op_retries operation \<ge> op_maxRetries operation
                     then (let pushed = failed queue1 @ [operation]
                           in queue1\<lparr>pending := filter (\<lambda>op. op_id op \<noteq> operationId) (pending queue1),
                                     failed := (if length pushed > MAX_FAILED_QUEUE
                                                then slice_last MAX_FAILED_QUEUE pushed
                                                else pushed)\<rparr>)
                     else queue1)
              in mutate_and_save_queue queue2 w))"

text \<open>
  \<^verbatim>\<open>retryFailed\<close> resets every failed operation and pushes it onto the pending array,
  without the test that \<^verbatim>\<open>addToQueue\<close> makes.
\<close>

definition retryFailed :: "world \<Rightarrow> world" where
  "retryFailed w =
     (let queue = getQueue w
      in mutate_and_save_queue
           \<lparr>pending = pending queue @
                        map (\<lambda>op. op\<lparr>op_retries := 0, op_lastError := None\<rparr>) (failed queue),
            failed = []\<rparr> w)"

section \<open>Hashing and normalisation (utils/hash.ts)\<close>

text \<open>
  Strings are byte strings here, and \<^verbatim>\<open>toLowerCase\<close> and \<^verbatim>\<open>trim\<close> act on their ASCII
  letters and ASCII white space.
\<close>

definition to_lower :: "char \<Rightarrow> char" where
  "to_lower c =
     (if (of_char (CHR ''A'') :: nat) \<le> of_char c \<and> (of_char c :: nat) \<le> of_char (CHR ''Z'')
      then char_of (of_char c + (32::nat)) else c)"

definition toLowerCase :: "string \<Rightarrow> string" where
  "toLowerCase s = map to_lower s"

definition is_space :: "char \<Rightarrow> bool" where
  "is_space c \<longleftrightarrow> c \<in> set [CHR 0x09, CHR 0x0A, CHR 0x0B, CHR 0x0C, CHR 0x0D, CHR '' '']"

definition trim :: "string \<Rightarrow> string" where
  "trim s = rev (dropWhile is_space (rev (dropWhile is_space s)))"

text \<open>
  \<^verbatim>\<open>hashString\<close>: \<^verbatim>\<open>hash = ((hash << 5) + hash) ^ str.charCodeAt(i)\<close>. The shift and the
  exclusive or work on 32-bit integers and the sum in between is exact, so each step is
  a step on 32-bit words; \<^verbatim>\<open>(hash >>> 0).toString(16)\<close> prints the unsigned value.
\<close>

definition hex_digit :: "nat \<Rightarrow> char" where
  "hex_digit d = ''0123456789abcdef'' ! d"

fun to_hex :: "nat \<Rightarrow> string" where
  "to_hex n = (if n < 16 then [hex_digit n] else to_hex (n div 16) @ [hex_digit (n mod 16)])"

definition hash_step :: "32 word \<Rightarrow> char \<Rightarrow> 32 word" where
  "hash_step hash c = (push_bit 5 hash + hash) XOR of_nat (of_char c)"

definition hashString :: "string \<Rightarrow> string" where
  "hashString str = to_hex (unat (foldl hash_step 5381 str))"

text \<open>
  The platform's \<^verbatim>\<open>URL\<close> class. A parsed URL is a record of the components that the
  class exposes; assigning to a component is a record update. The parser
  (\<^verbatim>\<open>new URL(s)\<close>, which throws on a malformed string), the serialiser
  (\<^verbatim>\<open>toString()\<close>) and the collation of \<^verbatim>\<open>localeCompare\<close> belong to the platform and
  are parameters.
\<close>

record URL =
  url_protocol :: string
  url_username :: string
  url_password :: string
  url_hostname :: string
  url_port :: string
  url_pathname :: string
  url_searchParams :: "(string \<times> string) list"
  url_hash :: string

record url_platform =
  new_URL :: "string \<Rightarrow> URL option"
  URL_toString :: "URL \<Rightarrow> string"
  localeCompare :: "string \<Rightarrow> string \<Rightarrow> int"

text \<open>\<^verbatim>\<open>Array.prototype.sort\<close> is stable; the comparison looks at the keys.\<close>

fun insert_by :: "(string \<Rightarrow> string \<Rightarrow> int) \<Rightarrow> string \<times> string \<Rightarrow> (string \<times> string) list
    \<Rightarrow> (string \<times> string) list" where
  "insert_by cmp p [] = [p]"
| "insert_by cmp p (q # qs) = (if cmp (fst p) (fst q) \<le> 0 then p # q # qs else q # insert_by cmp p qs)"

definition sort_by :: "(string \<Rightarrow> string \<Rightarrow> int) \<Rightarrow> (string \<times> string) list \<Rightarrow> (string \<times> string) list" where
  "sort_by cmp ps = foldr (insert_by cmp) ps []"

definition trackingParams :: "string list" where
  "trackingParams = [''utm_source'', ''utm_medium'', ''utm_campaign'', ''utm_term'',
                     ''utm_content'', ''fbclid'', ''gclid'']"

definition endsWith_slash :: "string \<Rightarrow> bool" where
  "endsWith_slash s \<longleftrightarrow> s \<noteq> [] \<and> last s = CHR ''/''"

text \<open>The \<^verbatim>\<open>catch\<close> branch: \<^verbatim>\<open>url.toLowerCase().replace(/\/+$/, '')\<close>.\<close>

definition normalize_fallback :: "string \<Rightarrow> string" where
  "normalize_fallback url = rev (dropWhile (\<lambda>c. c = CHR ''/'') (rev (toLowerCase url)))"

definition normalize_parsed :: "url_platform \<Rightarrow> URL \<Rightarrow> URL" where
  "normalize_parsed P parsed =
     (let p1 = parsed\<lparr>url_hostname := toLowerCase (url_hostname parsed)\<rparr>;
          p2 = p1\<lparr>url_protocol := toLowerCase (url_protocol p1)\<rparr>;
          p3 = (if endsWith_slash (url_pathname p2) \<and> length (url_pathname p2) > 1
                then p2\<lparr>url_pathname := butlast (url_pathname p2)\<rparr> else p2);
          p4 = p3\<lparr>url_searchParams :=
                    filter (\<lambda>kv. fst kv \<notin> set trackingParams) (url_searchParams p3)\<rparr>;
          p5 = p4\<lparr>url_searchParams := sort_by (localeCompare P) (url_searchParams p4)\<rparr>
      in p5\<lparr>url_hash := []\<rparr>)"

definition normalizeUrl :: "url_platform \<Rightarrow> string \<Rightarrow> string" where
  "normalizeUrl P url =
     (case new_URL P url of
        Some parsed \<Rightarrow> URL_toString P (normalize_parsed P parsed)
      | None \<Rightarrow> normalize_fallback url)"

definition computeBookmarkHash :: "url_platform \<Rightarrow> string \<Rightarrow> string \<Rightarrow> string" where
  "computeBookmarkHash P url title = hashString (normalizeUrl P url @ ''|'' @ trim title)"

definition computeRaindropHash :: "url_platform \<Rightarrow> string \<Rightarrow> string \<Rightarrow> string" where
  "computeRaindropHash P link title = hashString (normalizeUrl P link @ ''|'' @ trim title)"

section \<open>Queue processor (background/queue.ts)\<close>

text \<open>
  The answers of the outside world. Each answer may depend on the trace of the calls
  issued so far. \<^verbatim>\<open>Date.now()\<close> is one value \<open>now\<close> for the whole invocation.
\<close>

record env =
  now :: int
  platform :: url_platform
  createRaindrop :: "ext_call list \<Rightarrow> string \<Rightarrow> string \<Rightarrow> int \<Rightarrow> Raindrop result"
  updateRaindrop :: "ext_call list \<Rightarrow> int \<Rightarrow> RaindropUpdates \<Rightarrow> unit result"
  deleteRaindrop :: "ext_call list \<Rightarrow> int \<Rightarrow> unit result"
  getRaindrop :: "ext_call list \<Rightarrow> int \<Rightarrow> Raindrop result"
  getAllRaindropsInCollection :: "ext_call list \<Rightarrow> int \<Rightarrow> Raindrop list result"
  bookmarks_create :: "ext_call list \<Rightarrow> string \<Rightarrow> string \<Rightarrow> string \<Rightarrow> string result"
  bookmarks_update :: "ext_call list \<Rightarrow> string \<Rightarrow> string \<Rightarrow> string \<Rightarrow> unit result"
  bookmarks_remove :: "ext_call list \<Rightarrow> string \<Rightarrow> unit result"
  generateId :: "ext_call list \<Rightarrow> string"
  JSON_stringify :: "SyncOperationData \<Rightarrow> string"

definition emit :: "ext_call \<Rightarrow> world \<Rightarrow> world" where
  "emit c w = w\<lparr>trace := trace w @ [c]\<rparr>"

text \<open>The value of an optional field once it has passed a truthiness test, and \<^verbatim>\<open>a || b\<close>.\<close>

definition str_of :: "string option \<Rightarrow> string" where
  "str_of s = (case s of Some x \<Rightarrow> x | None \<Rightarrow> [])"

definition num_of :: "int option \<Rightarrow> int" where
  "num_of n = (case n of Some x \<Rightarrow> x | None \<Rightarrow> 0)"

definition or_else :: "string option \<Rightarrow> string \<Rightarrow> string" where
  "or_else s d = (if truthy_str s then str_of s else d)"

definition PROCESSING_LOCK_TIMEOUT :: int where
  "PROCESSING_LOCK_TIMEOUT = 5 * 60 * 1000"

definition acquireLock :: "env \<Rightarrow> world \<Rightarrow> bool \<times> world" where
  "acquireLock E w =
     (case queue_processing_lock w of
        Some timestamp \<Rightarrow>
          (if now E - timestamp < PROCESSING_LOCK_TIMEOUT then (False, w)
           else (True, w\<lparr>queue_processing_lock := Some (now E)\<rparr>))
      | None \<Rightarrow> (True, w\<lparr>queue_processing_lock := Some (now E)\<rparr>))"

definition releaseLock :: "world \<Rightarrow> world" where
  "releaseLock w = w\<lparr>queue_processing_lock := None\<rparr>"

subsection \<open>Push to Raindrop\<close>

definition pushCreateToRaindrop :: "env \<Rightarrow> SyncOperationData \<Rightarrow> world \<Rightarrow> unit result \<times> world" where
  "pushCreateToRaindrop E data w =
     (if \<not> truthy_str (d_url data) \<or> \<not> truthy_str (d_title data) \<or>
         \<not> truthy_num (d_collectionId data) \<or> \<not> truthy_str (d_firefoxId data)
      then (Threw ''Missing required data for create operation'', w)
      else case findBookmarkLink (d_firefoxId data) None w of
        Some existingLink \<Rightarrow> (Ok (), w)
      | None \<Rightarrow>
          (let answer = createRaindrop E (trace w) (str_of (d_url data)) (str_of (d_title data))
                          (num_of (d_collectionId data));
               w1 = emit (CreateRaindrop (str_of (d_url data)) (str_of (d_title data))
                          (num_of (d_collectionId data))) w
           in case answer of
                Threw message \<Rightarrow> (Threw message, w1)
              | Ok raindrop \<Rightarrow>
                  (let w2 = emit GenerateId w1;
                       link = \<lparr>l_id = generateId E (trace w1),
                               l_firefoxId = str_of (d_firefoxId data),
                               l_raindropId = r_id raindrop,
                               l_url = str_of (d_url data),
                               l_title = str_of (d_title data),
                               l_lastModified = now E,
                               l_contentHash = computeBookmarkHash (platform E)
                                                 (str_of (d_url data)) (str_of (d_title data)),
                               l_syncStatus = Synced,
                               l_mappingId = or_else (d_mappingId data) [],
                               l_errorMessage = None\<rparr>
                   in (Ok (), addBookmarkLink link w2))))"

definition pushUpdateToRaindrop :: "env \<Rightarrow> SyncOperationData \<Rightarrow> world \<Rightarrow> unit result \<times> world" where
  "pushUpdateToRaindrop E data w =
     (if \<not> truthy_num (d_raindropId data)
      then (Threw ''Missing raindrop ID for update operation'', w)
      else
        (let updates = \<lparr>ru_link = (if truthy_str (d_url data) then d_url data else None),
                        ru_title = (if truthy_str (d_title data) then d_title data else None),
                        ru_collection = None\<rparr>;
             answer = updateRaindrop E (trace w) (num_of (d_raindropId data)) updates;
             w1 = emit (UpdateRaindrop (num_of (d_raindropId data)) updates) w
         in case answer of
              Threw message \<Rightarrow> (Threw message, w1)
            | Ok _ \<Rightarrow>
                (case findBookmarkLink (d_firefoxId data) (d_raindropId data) w1 of
                   None \<Rightarrow> (Ok (), w1)
                 | Some link \<Rightarrow>
                     (Ok (), snd (updateBookmarkLink (l_id link)
                        (\<lambda>l. l\<lparr>l_url := or_else (d_url data) (l_url link),
                                l_title := or_else (d_title data) (l_title link),
                                l_lastModified := now E,
                                l_contentHash := computeBookmarkHash (platform E)
                                   (or_else (d_url data) (l_url link))
                                   (or_else (d_title data) (l_title link)),
                                l_syncStatus := Synced\<rparr>) w1)))))"

definition pushDeleteToRaindrop :: "env \<Rightarrow> SyncOperationData \<Rightarrow> world \<Rightarrow> unit result \<times> world" where
  "pushDeleteToRaindrop E data w =
     (if \<not> truthy_num (d_raindropId data)
      then (Threw ''Missing raindrop ID for delete operation'', w)
      else
        (let answer = deleteRaindrop E (trace w) (num_of (d_raindropId data));
             w1 = emit (DeleteRaindrop (num_of (d_raindropId data))) w
         in case answer of
              Threw message \<Rightarrow> (Threw message, w1)
            | Ok _ \<Rightarrow>
                (case findBookmarkLink (d_firefoxId data) (d_raindropId data) w1 of
                   None \<Rightarrow> (Ok (), w1)
                 | Some link \<Rightarrow> (Ok (), removeBookmarkLink (l_id link) w1))))"

definition pushMoveToRaindrop :: "env \<Rightarrow> SyncOperationData \<Rightarrow> world \<Rightarrow> unit result \<times> world" where
  "pushMoveToRaindrop E data w =
     (if \<not> truthy_num (d_raindropId data) \<or> \<not> truthy_num (d_newCollectionId data)
      then (Threw ''Missing data for move operation'', w)
      else
        (let updates = \<lparr>ru_link = None, ru_title = None, ru_collection = d_newCollectionId data\<rparr>;
             answer = updateRaindrop E (trace w) (num_of (d_raindropId data)) updates;
             w1 = emit (UpdateRaindrop (num_of (d_raindropId data)) updates) w
         in case answer of
              Threw message \<Rightarrow> (Threw message, w1)
            | Ok _ \<Rightarrow>
                (case findBookmarkLink (d_firefoxId data) (d_raindropId data) w1 of
                   None \<Rightarrow> (Ok (), w1)
                 | Some link \<Rightarrow>
                     (if truthy_str (d_mappingId data)
                      then (Ok (), snd (updateBookmarkLink (l_id link)
                              (\<lambda>l. l\<lparr>l_mappingId := str_of (d_mappingId data),
                                      l_lastModified := now E,
                                      l_syncStatus := Synced\<rparr>) w1))
                      else (Ok (), w1)))))"

subsection \<open>Pull from Raindrop\<close>

definition pullCreateFromRaindrop :: "env \<Rightarrow> SyncOperationData \<Rightarrow> world \<Rightarrow> unit result \<times> world" where
  "pullCreateFromRaindrop E data w =
     (if \<not> truthy_num (d_raindropId data) \<or> \<not> truthy_str (d_parentFolderId data)
      then (Threw ''Missing data for create from Raindrop'', w)
      else case findBookmarkLink None (d_raindropId data) w of
        Some existingLink \<Rightarrow> (Ok (), w)
      | None \<Rightarrow>
          (let fetched = getRaindrop E (trace w) (num_of (d_raindropId data));
               w1 = emit (GetRaindrop (num_of (d_raindropId data))) w
           in case fetched of
                Threw message \<Rightarrow> (Threw message, w1)
              | Ok raindrop \<Rightarrow>
                  (let created = bookmarks_create E (trace w1) (str_of (d_parentFolderId data))
                                   (r_title raindrop) (r_link raindrop);
                       w2 = emit (BookmarksCreate (str_of (d_parentFolderId data))
                                   (r_title raindrop) (r_link raindrop)) w1
                   in case created of
                        Threw message \<Rightarrow> (Threw message, w2)
                      | Ok bookmark_id \<Rightarrow>
                          (let mapping = findMappingByFirefoxId (str_of (d_parentFolderId data)) w2;
                               w3 = emit GenerateId w2;
                               link = \<lparr>l_id = generateId E (trace w2),
                                       l_firefoxId = bookmark_id,
                                       l_raindropId = r_id raindrop,
                                       l_url = r_link raindrop,
                                       l_title = r_title raindrop,
                                       l_lastModified = now E,
                                       l_contentHash = computeBookmarkHash (platform E)
                                                         (r_link raindrop) (r_title raindrop),
                                       l_syncStatus = Synced,
                                       l_mappingId = (case mapping of Some m \<Rightarrow> m_id m | None \<Rightarrow> []),
                                       l_errorMessage = None\<rparr>
                           in (Ok (), addBookmarkLink link w3)))))"

definition pullUpdateFromRaindrop :: "env \<Rightarrow> SyncOperationData \<Rightarrow> world \<Rightarrow> unit result \<times> world" where
  "pullUpdateFromRaindrop E data w =
     (if \<not> truthy_str (d_firefoxId data) \<or> \<not> truthy_num (d_raindropId data)
      then (Threw ''Missing data for update from Raindrop'', w)
      else
        (let fetched = getRaindrop E (trace w) (num_of (d_raindropId data));
             w1 = emit (GetRaindrop (num_of (d_raindropId data))) w
         in case fetched of
              Threw message \<Rightarrow> (Threw message, w1)
            | Ok raindrop \<Rightarrow>
                (let updated = bookmarks_update E (trace w1) (str_of (d_firefoxId data))
                                 (r_title raindrop) (r_link raindrop);
                     w2 = emit (BookmarksUpdate (str_of (d_firefoxId data))
                                 (r_title raindrop) (r_link raindrop)) w1
                 in case updated of
                      Threw message \<Rightarrow> (Threw message, w2)
                    | Ok _ \<Rightarrow>
                        (case findBookmarkLink (d_firefoxId data) (d_raindropId data) w2 of
                           None \<Rightarrow> (Ok (), w2)
                         | Some link \<Rightarrow>
                             (Ok (), snd (updateBookmarkLink (l_id link)
                                (\<lambda>l. l\<lparr>l_url := r_link raindrop,
                                        l_title := r_title raindrop,
                                        l_lastModified := now E,
                                        l_contentHash := computeBookmarkHash (platform E)
                                           (r_link raindrop) (r_title raindrop),
                                        l_syncStatus := Synced\<rparr>) w2))))))"

text \<open>A failing \<^verbatim>\<open>browser.bookmarks.remove\<close> is caught and logged; the handler goes on.\<close>

definition pullDeleteFromRaindrop :: "env \<Rightarrow> SyncOperationData \<Rightarrow> world \<Rightarrow> unit result \<times> world" where
  "pullDeleteFromRaindrop E data w =
     (if \<not> truthy_str (d_firefoxId data)
      then (Threw ''Missing Firefox ID for delete from Raindrop'', w)
      else
        (let w1 = emit (BookmarksRemove (str_of (d_firefoxId data))) w
         in case findBookmarkLink (d_firefoxId data) (d_raindropId data) w1 of
              None \<Rightarrow> (Ok (), w1)
            | Some link \<Rightarrow> (Ok (), removeBookmarkLink (l_id link) w1)))"

subsection \<open>Dispatch on source and type\<close>

definition processFirefoxOperation :: "env \<Rightarrow> SyncOperation \<Rightarrow> world \<Rightarrow> unit result \<times> world" where
  "processFirefoxOperation E operation w =
     (case op_type operation of
        Create \<Rightarrow> pushCreateToRaindrop E (op_data operation) w
      | Update \<Rightarrow> pushUpdateToRaindrop E (op_data operation) w
      | Delete \<Rightarrow> pushDeleteToRaindrop E (op_data operation) w
      | Move \<Rightarrow> pushMoveToRaindrop E (op_data operation) w)"

definition processRaindropOperation :: "env \<Rightarrow> SyncOperation \<Rightarrow> world \<Rightarrow> unit result \<times> world" where
  "processRaindropOperation E operation w =
     (case op_type operation of
        Create \<Rightarrow> pullCreateFromRaindrop E (op_data operation) w
      | Update \<Rightarrow> pullUpdateFromRaindrop E (op_data operation) w
      | Delete \<Rightarrow> pullDeleteFromRaindrop E (op_data operation) w
      | Move \<Rightarrow> (Ok (), w))"

definition processOperation :: "env \<Rightarrow> SyncOperation \<Rightarrow> world \<Rightarrow> unit result \<times> world" where
  "processOperation E operation w =
     (case op_source operation of
        SrcFirefox \<Rightarrow> processFirefoxOperation E operation w
      | SrcRaindrop \<Rightarrow> processRaindropOperation E operation w)"

subsection \<open>The processing loop\<close>

text \<open>
  The local variable \<^verbatim>\<open>queue\<close> of \<^verbatim>\<open>processQueue\<close> holds what \<^verbatim>\<open>getQueue\<close> answered:
  a copy of the stored queue, or the default object. The loop reads
  \<^verbatim>\<open>queue.pending.length\<close> and \<^verbatim>\<open>queue.pending[i]\<close> anew in every round, so it sees
  what \<^verbatim>\<open>removeFromQueue\<close> and \<^verbatim>\<open>moveToFailed\<close> do to the default object.
\<close>

datatype queue_ref = Copy SyncQueue | DefaultObject

definition getQueue_ref :: "world \<Rightarrow> queue_ref" where
  "getQueue_ref w = (case sync_queue w of Some q \<Rightarrow> Copy q | None \<Rightarrow> DefaultObject)"

definition held :: "queue_ref \<Rightarrow> world \<Rightarrow> SyncQueue" where
  "held r w = (case r of Copy q \<Rightarrow> q | DefaultObject \<Rightarrow> default_sync_queue w)"

definition type_name :: "op_type \<Rightarrow> string" where
  "type_name t = (case t of Create \<Rightarrow> ''create'' | Update \<Rightarrow> ''update''
                  | Delete \<Rightarrow> ''delete'' | Move \<Rightarrow> ''move'')"

definition entity_name :: "entity_type \<Rightarrow> string" where
  "entity_name t = (case t of Bookmark \<Rightarrow> ''bookmark'' | Folder \<Rightarrow> ''folder'')"

definition process_one :: "env \<Rightarrow> queue_ref \<Rightarrow> nat \<Rightarrow> SyncOperation \<Rightarrow> world \<Rightarrow> world" where
  "process_one E queue i operation w =
     (case processOperation E operation w of
        (Ok _, w1) \<Rightarrow>
          (let w2 = removeFromQueue (op_id operation) w1
           in updateSyncStats
                (\<lambda>s. s\<lparr>pendingOperations := int (length (pending (held queue w2))) - (int i + 1),
                        lastSyncTime := now E,
                        lastSyncStatus := Success\<rparr>) w2)
      | (Threw errorMessage, w1) \<Rightarrow>
          (let w2 = moveToFailed (op_id operation) errorMessage w1
           in addSyncError
                \<lparr>e_timestamp = now E,
                 e_operation = type_name (op_type operation) @ '' '' @
                               entity_name (op_entityType operation),
                 e_message = errorMessage,
                 e_details = Some (JSON_stringify E (op_data operation))\<rparr> w2))"

function process_loop :: "env \<Rightarrow> queue_ref \<Rightarrow> nat \<Rightarrow> world \<Rightarrow> world" where
  "process_loop E queue i w =
     (if i < length (pending (held queue w))
      then process_loop E queue (Suc i) (process_one E queue i (pending (held queue w) ! i) w)
      else w)"
  by pat_completeness auto
termination
proof (relation "measure (\<lambda>(E, queue, i, w). length (pending (held queue w)) - i)")
  show "wf (measure (\<lambda>(E, queue, i, w). length (pending (held queue w)) - i))"
    by simp
next
  fix E :: env and queue :: queue_ref and i :: nat and w :: world
  assume less: "i < length (pending (held queue w))"
  define operation where "operation = pending (held queue w) ! i"
  note links = emit_def addBookmarkLink_def updateBookmarkLink_def removeBookmarkLink_def
    saveBookmarkLinks_def Let_def
  have "default_sync_queue (snd (pushCreateToRaindrop E d v)) = default_sync_queue v"
    and "default_sync_queue (snd (pushUpdateToRaindrop E d v)) = default_sync_queue v"
    and "default_sync_queue (snd (pushDeleteToRaindrop E d v)) = default_sync_queue v"
    and "default_sync_queue (snd (pushMoveToRaindrop E d v)) = default_sync_queue v"
    and "default_sync_queue (snd (pullCreateFromRaindrop E d v)) = default_sync_queue v"
    and "default_sync_queue (snd (pullUpdateFromRaindrop E d v)) = default_sync_queue v"
    and "default_sync_queue (snd (pullDeleteFromRaindrop E d v)) = default_sync_queue v" for d v
    unfolding pushCreateToRaindrop_def pushUpdateToRaindrop_def pushDeleteToRaindrop_def
      pushMoveToRaindrop_def pullCreateFromRaindrop_def pullUpdateFromRaindrop_def
      pullDeleteFromRaindrop_def
    by (simp_all add: links split: option.split result.split)
  then have handler:
    "default_sync_queue (snd (processOperation E operation w)) = default_sync_queue w"
    by (simp add: processOperation_def processFirefoxOperation_def processRaindropOperation_def
        split: op_source.split op_type.split)
  have removed: "length (pending (default_sync_queue (removeFromQueue k v)))
      \<le> length (pending (default_sync_queue v))" for k v
    by (simp add: removeFromQueue_def mutate_and_save_queue_def getQueue_def Let_def)
  have same_length: "length (update_first P f xs) = length xs"
    for P and f :: "SyncOperation \<Rightarrow> SyncOperation" and xs
    by (induction xs) simp_all
  have moved: "length (pending (default_sync_queue (moveToFailed k m v)))
      \<le> length (pending (default_sync_queue v))" for k m v
    by (simp add: moveToFailed_def mutate_and_save_queue_def getQueue_def Let_def same_length
        le_trans [OF length_filter_le] split: option.split)
  have stats: "default_sync_queue (updateSyncStats f v) = default_sync_queue v" for f v
    by (simp add: updateSyncStats_def)
  have errs: "default_sync_queue (addSyncError e v) = default_sync_queue v" for e v
    by (simp add: addSyncError_def updateSyncStats_def Let_def)
  have "length (pending (held queue (process_one E queue i operation w)))
      \<le> length (pending (held queue w))"
  proof (cases queue)
    case (Copy q)
    then show ?thesis by (simp add: held_def)
  next
    case DefaultObject
    obtain r w1 where pw: "processOperation E operation w = (r, w1)"
      by (cases "processOperation E operation w")
    with handler have w1: "default_sync_queue w1 = default_sync_queue w" by simp
    show ?thesis
    proof (cases r)
      case (Ok u)
      with pw w1 removed [of "op_id operation" w1] DefaultObject show ?thesis
        by (simp add: process_one_def held_def stats Let_def)
    next
      case (Threw m)
      with pw w1 moved [of "op_id operation" m w1] DefaultObject show ?thesis
        by (simp add: process_one_def held_def errs Let_def)
    qed
  qed
  with less show "((E, queue, Suc i, process_one E queue i (pending (held queue w) ! i) w),
      (E, queue, i, w)) \<in> measure (\<lambda>(E, queue, i, w). length (pending (held queue w)) - i)"
    by (simp add: operation_def)
qed

declare process_loop.simps [simp del]

definition processQueue :: "env \<Rightarrow> world \<Rightarrow> world" where
  "processQueue E w =
     (case acquireLock E w of
        (False, _) \<Rightarrow> w
      | (True, w1) \<Rightarrow>
          (let w2 = emit (SetSyncing True) w1;
               queue = getQueue_ref w2;
               w3 = (if length (pending (held queue w2)) = 0 then w2
                     else process_loop E queue 0 w2)
           in emit (SetSyncing False) (releaseLock w3)))"

section \<open>Sequences of link operations\<close>

datatype link_operation = AddLink BookmarkLink | RemoveLink string

fun apply_link_operation :: "world \<Rightarrow> link_operation \<Rightarrow> world" where
  "apply_link_operation w (AddLink link) = addBookmarkLink link w"
| "apply_link_operation w (RemoveLink linkId) = removeBookmarkLink linkId w"

definition links_unique :: "BookmarkLink list \<Rightarrow> bool" where
  "links_unique ls \<longleftrightarrow> distinct (map l_firefoxId ls) \<and> distinct (map l_raindropId ls)"

section \<open>Incremental pull (background/syncManager.ts)\<close>

record PullSyncResult =
  p_created :: int
  p_updated :: int
  p_deleted :: int
  p_errors :: "string list"

text \<open>
  A \<^verbatim>\<open>Map\<close> filled by \<^verbatim>\<open>set(link.raindropId, link)\<close> in list order: a later link with the
  same key replaces an earlier one.
\<close>

definition linksByRaindropId :: "BookmarkLink list \<Rightarrow> int \<Rightarrow> BookmarkLink option" where
  "linksByRaindropId links k = find (\<lambda>l. l_raindropId l = k) (rev links)"

definition initial_linkedUrls :: "url_platform \<Rightarrow> BookmarkLink list \<Rightarrow> string set" where
  "initial_linkedUrls P allLinks =
     set (map (\<lambda>l. normalizeUrl P (l_url l)) (filter (\<lambda>l. l_url l \<noteq> []) allLinks))"

text \<open>\<^verbatim>\<open>`Failed to create bookmark: ${error}`\<close>: an \<^verbatim>\<open>Error\<close> prints as \<^verbatim>\<open>Error: message\<close>.\<close>

definition error_text :: "string \<Rightarrow> string" where
  "error_text message = ''Error: '' @ message"

text \<open>
  What the loops of \<^verbatim>\<open>pullSyncForMapping\<close> carry along: the state, the set
  \<^verbatim>\<open>linkedUrls\<close> and the result under construction.
\<close>

record pull_state =
  ps_world :: world
  ps_linkedUrls :: "string set"
  ps_result :: PullSyncResult

text \<open>The link that the pass stores for a remote item it has created a bookmark for.\<close>

definition pulled_link :: "env \<Rightarrow> FolderMapping \<Rightarrow> Raindrop \<Rightarrow> string \<Rightarrow> string \<Rightarrow> BookmarkLink" where
  "pulled_link E mapping raindrop bookmark_id link_id =
     \<lparr>l_id = link_id,
      l_firefoxId = bookmark_id,
      l_raindropId = r_id raindrop,
      l_url = r_link raindrop,
      l_title = r_title raindrop,
      l_lastModified = now E,
      l_contentHash = computeRaindropHash (platform E) (r_link raindrop) (r_title raindrop),
      l_syncStatus = Synced,
      l_mappingId = m_id mapping,
      l_errorMessage = None\<rparr>"

text \<open>
  One round of the loop over the fetched items. The two maps are built before the loop
  from the links as they were stored then, and are not refreshed.
\<close>

definition pull_raindrop ::
  "env \<Rightarrow> FolderMapping \<Rightarrow> (int \<Rightarrow> BookmarkLink option) \<Rightarrow> (int \<Rightarrow> BookmarkLink option)
    \<Rightarrow> pull_state \<Rightarrow> Raindrop \<Rightarrow> pull_state" where
  "pull_raindrop E mapping globalLinksByRaindropId localLinksByRaindropId s raindrop =
     (let w = ps_world s; result = ps_result s
      in case globalLinksByRaindropId (r_id raindrop) of
        None \<Rightarrow>
          (let normalizedUrl = normalizeUrl (platform E) (r_link raindrop)
           in if normalizedUrl \<in> ps_linkedUrls s then s
              else
                (let created = bookmarks_create E (trace w) (m_firefoxFolderId mapping)
                                 (r_title raindrop) (r_link raindrop);
                     w1 = emit (BookmarksCreate (m_firefoxFolderId mapping)
                                 (r_title raindrop) (r_link raindrop)) w
                 in case created of
                      Threw message \<Rightarrow>
                        s\<lparr>ps_world := w1,
                          ps_result := result\<lparr>p_errors := p_errors result @
                            [''Failed to create bookmark: '' @ error_text message]\<rparr>\<rparr>
                    | Ok bookmark_id \<Rightarrow>
                        (let w2 = emit GenerateId w1;
                             link = pulled_link E mapping raindrop bookmark_id
                                      (generateId E (trace w1))
                         in s\<lparr>ps_world := addBookmarkLink link w2,
                              ps_linkedUrls := insert normalizedUrl (ps_linkedUrls s),
                              ps_result := result\<lparr>p_created := p_created result + 1\<rparr>\<rparr>)))
      | Some globalLink \<Rightarrow>
          (case localLinksByRaindropId (r_id raindrop) of
             None \<Rightarrow> s
           | Some localLink \<Rightarrow>
               (let currentHash = computeRaindropHash (platform E) (r_link raindrop) (r_title raindrop)
                in if currentHash \<noteq> l_contentHash localLink
                   then
                     (let answer = bookmarks_update E (trace w) (l_firefoxId localLink)
                                     (r_title raindrop) (r_link raindrop);
                          w1 = emit (BookmarksUpdate (l_firefoxId localLink)
                                     (r_title raindrop) (r_link raindrop)) w
                      in case answer of
                           Threw message \<Rightarrow>
                             s\<lparr>ps_world := w1,
                               ps_result := result\<lparr>p_errors := p_errors result @
                                 [''Failed to update bookmark: '' @ error_text message]\<rparr>\<rparr>
                         | Ok _ \<Rightarrow>
                             s\<lparr>ps_world := snd (updateBookmarkLink (l_id localLink)
                                    (\<lambda>l. l\<lparr>l_url := r_link raindrop,
                                            l_title := r_title raindrop,
                                            l_lastModified := now E,
                                            l_contentHash := currentHash,
                                            l_syncStatus := Synced\<rparr>) w1),
                               ps_result := result\<lparr>p_updated := p_updated result + 1\<rparr>\<rparr>)
                   else s)))"

text \<open>
  One round of the loop over this mapping's links: a link whose remote item was not
  fetched loses its bookmark and is removed, whether or not the browser's removal throws.
\<close>

definition pull_deleted :: "Raindrop list \<Rightarrow> pull_state \<Rightarrow> BookmarkLink \<Rightarrow> pull_state" where
  "pull_deleted raindrops s link =
     (if l_raindropId link \<notin> set (map r_id raindrops)
      then s\<lparr>ps_world := removeBookmarkLink (l_id link)
                           (emit (BookmarksRemove (l_firefoxId link)) (ps_world s)),
             ps_result := (ps_result s)\<lparr>p_deleted := p_deleted (ps_result s) + 1\<rparr>\<rparr>
      else s)"

definition pull_start :: "env \<Rightarrow> world \<Rightarrow> pull_state" where
  "pull_start E w =
     \<lparr>ps_world = w,
      ps_linkedUrls = initial_linkedUrls (platform E) (getBookmarkLinks w),
      ps_result = \<lparr>p_created = 0, p_updated = 0, p_deleted = 0, p_errors = []\<rparr>\<rparr>"

definition pull_raindrops :: "env \<Rightarrow> FolderMapping \<Rightarrow> world \<Rightarrow> Raindrop list \<Rightarrow> pull_state" where
  "pull_raindrops E mapping w raindrops =
     foldl (pull_raindrop E mapping
              (linksByRaindropId (getBookmarkLinks w))
              (linksByRaindropId (getBookmarkLinksForMapping (m_id mapping) w)))
       (pull_start E w) raindrops"

definition pullSyncForMapping :: "env \<Rightarrow> FolderMapping \<Rightarrow> world \<Rightarrow> PullSyncResult result \<times> world" where
  "pullSyncForMapping E mapping w0 =
     (let fetched = getAllRaindropsInCollection E (trace w0) (m_raindropCollectionId mapping);
          w = emit (GetAllRaindropsInCollection (m_raindropCollectionId mapping)) w0
      in case fetched of
           Threw message \<Rightarrow> (Threw message, w)
         | Ok raindrops \<Rightarrow>
             (let localLinks = getBookmarkLinksForMapping (m_id mapping) w;
                  s1 = pull_raindrops E mapping w raindrops;
                  s2 = foldl (pull_deleted raindrops) s1 localLinks;
                  w3 = snd (updateFolderMapping (m_id mapping) (\<lambda>m. m\<lparr>m_lastSync := now E\<rparr>)
                              (ps_world s2))
              in (Ok (ps_result s2), w3)))"

section \<open>A stand-in for the platform's URL class\<close>

text \<open>
  To evaluate \<^verbatim>\<open>normalizeUrl\<close> on concrete strings, the platform is instantiated on a small
  fragment of URLs: \<^verbatim>\<open>http://\<close> or \<^verbatim>\<open>https://\<close>, a host of letters and single dots that
  begins and ends with a letter, a path of letters, digits, \<^verbatim>\<open>/\<close>, \<^verbatim>\<open>-\<close> and \<^verbatim>\<open>_\<close>, an
  optional query of \<^verbatim>\<open>name=value\<close> pairs (names of lower-case letters and \<^verbatim>\<open>_\<close>, values of
  letters, digits, \<^verbatim>\<open>-\<close>, \<^verbatim>\<open>_\<close> and \<^verbatim>\<open>.\<close>) and an optional fragment of letters and digits.
  On such a string the browser's parser yields the components computed here, without
  escaping or rewriting anything. Every other string is answered with \<open>None\<close>, which is
  right for the strings that have no scheme and is not meant to describe the browser on
  the rest; the stand-in is used on strings of the fragment and on scheme-less strings only.
\<close>

definition is_lower :: "char \<Rightarrow> bool" where
  "is_lower c \<longleftrightarrow> (97::nat) \<le> of_char c \<and> (of_char c :: nat) \<le> 122"

definition is_letter :: "char \<Rightarrow> bool" where
  "is_letter c \<longleftrightarrow> is_lower c \<or> ((65::nat) \<le> of_char c \<and> (of_char c :: nat) \<le> 90)"

definition is_digit :: "char \<Rightarrow> bool" where
  "is_digit c \<longleftrightarrow> (48::nat) \<le> of_char c \<and> (of_char c :: nat) \<le> 57"

definition path_char :: "char \<Rightarrow> bool" where
  "path_char c \<longleftrightarrow> is_letter c \<or> is_digit c \<or> c \<in> set ''/-_''"

definition value_char :: "char \<Rightarrow> bool" where
  "value_char c \<longleftrightarrow> is_letter c \<or> is_digit c \<or> c \<in> set ''-_.''"

definition name_char :: "char \<Rightarrow> bool" where
  "name_char c \<longleftrightarrow> is_lower c \<or> c = CHR ''_''"

fun no_double_dot :: "string \<Rightarrow> bool" where
  "no_double_dot (a # b # cs) = (\<not> (a = CHR ''.'' \<and> b = CHR ''.'') \<and> no_double_dot (b # cs))"
| "no_double_dot cs = True"

definition plain_host :: "string \<Rightarrow> bool" where
  "plain_host h \<longleftrightarrow> h \<noteq> [] \<and> is_letter (hd h) \<and> is_letter (last h) \<and>
     list_all (\<lambda>c. is_letter c \<or> c = CHR ''.'') h \<and> no_double_dot h"

text \<open>Splitting a string at every occurrence of a separator.\<close>

fun split_on :: "char \<Rightarrow> string \<Rightarrow> string list" where
  "split_on sep [] = [[]]"
| "split_on sep (c # cs) =
     (if c = sep then [] # split_on sep cs
      else (case split_on sep cs of [] \<Rightarrow> [[c]] | x # xs \<Rightarrow> (c # x) # xs))"

definition plain_pair :: "string \<Rightarrow> (string \<times> string) option" where
  "plain_pair seg =
     (let name = takeWhile (\<lambda>c. c \<noteq> CHR ''='') seg;
          rest = dropWhile (\<lambda>c. c \<noteq> CHR ''='') seg
      in if name \<noteq> [] \<and> list_all name_char name \<and> rest \<noteq> [] \<and> list_all value_char (tl rest)
         then Some (name, tl rest) else None)"

definition plain_query :: "string \<Rightarrow> (string \<times> string) list option" where
  "plain_query q =
     (if q = [] then Some []
      else (let pairs = map plain_pair (split_on (CHR ''&'') (tl q))
            in if list_all (\<lambda>p. p \<noteq> None) pairs then Some (map the pairs) else None))"

definition plain_new_URL :: "string \<Rightarrow> URL option" where
  "plain_new_URL s =
     (let before_hash = takeWhile (\<lambda>c. c \<noteq> CHR ''#'') s;
          fragment = dropWhile (\<lambda>c. c \<noteq> CHR ''#'') s;
          main = takeWhile (\<lambda>c. c \<noteq> CHR ''?'') before_hash;
          query = dropWhile (\<lambda>c. c \<noteq> CHR ''?'') before_hash;
          scheme = (if toLowerCase (take 8 main) = ''https://'' then Some (''https:'', drop 8 main)
                    else if toLowerCase (take 7 main) = ''http://'' then Some (''http:'', drop 7 main)
                    else None)
      in case scheme of
           None \<Rightarrow> None
         | Some (protocol, rest) \<Rightarrow>
             (let host = takeWhile (\<lambda>c. c \<noteq> CHR ''/'') rest;
                  path = dropWhile (\<lambda>c. c \<noteq> CHR ''/'') rest
              in if plain_host host \<and> list_all path_char path \<and>
                    (fragment = [] \<or> (tl fragment \<noteq> [] \<and>
                       list_all (\<lambda>c. is_letter c \<or> is_digit c) (tl fragment)))
                 then (case plain_query query of
                         None \<Rightarrow> None
                       | Some params \<Rightarrow>
                           Some \<lparr>url_protocol = protocol, url_username = [], url_password = [],
                                 url_hostname = toLowerCase host, url_port = [],
                                 url_pathname = (if path = [] then ''/'' else path),
                                 url_searchParams = params, url_hash = fragment\<rparr>)
                 else None))"

text \<open>
  The serialiser is applied by \<^verbatim>\<open>normalizeUrl\<close> after the query has been rewritten from
  the parameter list, where each pair prints as \<^verbatim>\<open>name=value\<close>.
\<close>

fun join_pairs :: "(string \<times> string) list \<Rightarrow> string" where
  "join_pairs [] = []"
| "join_pairs [(k, v)] = k @ ''='' @ v"
| "join_pairs ((k, v) # p # ps) = k @ ''='' @ v @ ''&'' @ join_pairs (p # ps)"

definition plain_URL_toString :: "URL \<Rightarrow> string" where
  "plain_URL_toString u =
     url_protocol u @ ''//'' @ url_hostname u @ url_pathname u @
     (if url_searchParams u = [] then [] else ''?'' @ join_pairs (url_searchParams u)) @
     url_hash u"

text \<open>On names of lower-case letters and \<^verbatim>\<open>_\<close> the collation is the order of the codes.\<close>

fun plain_localeCompare :: "string \<Rightarrow> string \<Rightarrow> int" where
  "plain_localeCompare [] [] = 0"
| "plain_localeCompare [] (b # bs) = - 1"
| "plain_localeCompare (a # as) [] = 1"
| "plain_localeCompare (a # as) (b # bs) =
     (if (of_char a :: nat) < of_char b then - 1
      else if (of_char b :: nat) < of_char a then 1
      else plain_localeCompare as bs)"

definition plain_platform :: url_platform where
  "plain_platform =
     \<lparr>new_URL = plain_new_URL, URL_toString = plain_URL_toString,
      localeCompare = plain_localeCompare\<rparr>"

section \<open>Example states\<close>

definition example_link :: "string \<Rightarrow> string \<Rightarrow> int \<Rightarrow> string \<Rightarrow> string \<Rightarrow> BookmarkLink" where
  "example_link i f r u m =
     \<lparr>l_id = i, l_firefoxId = f, l_raindropId = r, l_url = u, l_title = ''t'',
      l_lastModified = 0, l_contentHash = ''0'', l_syncStatus = Synced, l_mappingId = m,
      l_errorMessage = None\<rparr>"

definition example_mapping :: "string \<Rightarrow> string \<Rightarrow> int \<Rightarrow> FolderMapping" where
  "example_mapping i f c =
     \<lparr>m_id = i, m_firefoxFolderId = f, m_raindropCollectionId = c, m_folderName = ''F'',
      m_raindropCollectionName = ''C'', m_parentMappingId = None, m_depth = 0, m_lastSync = 0,
      m_syncChildren = False\<rparr>"

text \<open>A fresh profile: nothing stored, the default objects untouched, nothing issued.\<close>

definition empty_world :: world where
  "empty_world =
     \<lparr>bookmark_links = None, folder_mappings = None, sync_queue = None, sync_stats = None,
      queue_processing_lock = None,
      default_sync_queue = \<lparr>pending = [], failed = []\<rparr>,
      default_sync_stats_errors = [], trace = []\<rparr>"

definition linked_world :: world where
  "linked_world = empty_world
     \<lparr>bookmark_links := Some [example_link ''L1'' ''f1'' 1 ''https://a.example/'' ''M1''],
      folder_mappings := Some [example_mapping ''M1'' ''folder1'' 10]\<rparr>"

definition example_operations :: "link_operation list" where
  "example_operations =
     [AddLink (example_link ''L1'' ''f1'' 1 ''https://a.example/'' ''M1''),
      AddLink (example_link ''L2'' ''f1'' 2 ''https://b.example/'' ''M2''),
      AddLink (example_link ''L3'' ''f3'' 1 ''https://c.example/'' ''M2''),
      AddLink (example_link ''L4'' ''f4'' 4 ''https://d.example/'' ''M2''),
      RemoveLink ''L1'',
      AddLink (example_link ''L5'' ''f1'' 1 ''https://e.example/'' ''M2'')]"

definition example_operation ::
  "string \<Rightarrow> op_type \<Rightarrow> string option \<Rightarrow> int option \<Rightarrow> int \<Rightarrow> SyncOperation" where
  "example_operation i t f r n =
     \<lparr>op_id = i, op_type = t, op_source = SrcFirefox, op_entityType = Bookmark,
      op_data = \<lparr>d_firefoxId = f, d_raindropId = r, d_url = None, d_title = None,
                 d_collectionId = None, d_parentFolderId = None, d_oldCollectionId = None,
                 d_newCollectionId = None, d_mappingId = None\<rparr>,
      op_timestamp = 0, op_retries = n, op_maxRetries = 3, op_lastError = None\<rparr>"

definition queued_world :: "SyncOperation list \<Rightarrow> world" where
  "queued_world ops = empty_world\<lparr>sync_queue := Some \<lparr>pending = ops, failed = []\<rparr>\<rparr>"

text \<open>
  An outside world in which every call succeeds: the remote service hands out item ids
  from 100 on, the browser and the id generator hand out a new string at every call.
\<close>

definition quiet_env :: env where
  "quiet_env =
     \<lparr>now = 1000000,
      platform = plain_platform,
      createRaindrop = (\<lambda>tr link title collection.
         Ok \<lparr>r_id = 100 + int (length tr), r_link = link, r_title = title\<rparr>),
      updateRaindrop = (\<lambda>tr i u. Ok ()),
      deleteRaindrop = (\<lambda>tr i. Ok ()),
      getRaindrop = (\<lambda>tr i. Ok \<lparr>r_id = i, r_link = ''https://example.com/r'', r_title = ''R''\<rparr>),
      getAllRaindropsInCollection = (\<lambda>tr c. Ok []),
      bookmarks_create = (\<lambda>tr parent t u. Ok (''bm'' @ replicate (length tr) (CHR ''+''))),
      bookmarks_update = (\<lambda>tr i t u. Ok ()),
      bookmarks_remove = (\<lambda>tr i. Ok ()),
      generateId = (\<lambda>tr. ''id'' @ replicate (length tr) (CHR ''+'')),
      JSON_stringify = (\<lambda>d. ''{}'')\<rparr>"

text \<open>The outside world of \<open>quiet_env\<close> with a given answer to the listing of a collection.\<close>

definition fetch_env :: "Raindrop list \<Rightarrow> env" where
  "fetch_env raindrops = quiet_env\<lparr>getAllRaindropsInCollection := (\<lambda>tr c. Ok raindrops)\<rparr>"


definition moved_items :: "Raindrop list" where
  "moved_items =
     [\<lparr>r_id = 1, r_link = ''https://example.com/b'', r_title = ''B''\<rparr>,
      \<lparr>r_id = 2, r_link = ''https://example.com/b'', r_title = ''B again''\<rparr>]"

definition stale_world :: world where
  "stale_world = empty_world
     \<lparr>bookmark_links := Some [(example_link ''L1'' ''f1'' 1 ''https://example.com/a'' ''M1'')
                                \<lparr>l_contentHash := []\<rparr>],
      folder_mappings := Some [example_mapping ''M1'' ''folder1'' 10]\<rparr>"

text \<open>
  A failed partition that is full: a hundred parked operations, the oldest first, next to
  two pending operations.
\<close>

definition parked :: "nat \<Rightarrow> SyncOperation" where
  "parked n = example_operation (''P'' @ replicate n (CHR ''+'')) Update None (Some (int n)) 3"

definition parked_entries :: "SyncOperation list" where
  "parked_entries = map parked [1..<101]"

definition full_world :: world where
  "full_world = empty_world
     \<lparr>sync_queue := Some \<lparr>pending = [example_operation ''A'' Delete (Some ''f1'') (Some 1) 2,
                                      example_operation ''B'' Update (Some ''f2'') (Some 2) 0],
                           failed = parked_entries\<rparr>\<rparr>"

text \<open>
  On a fresh profile operation A is enqueued and fails three times, which parks it in the
  failed partition.
\<close>

definition parked_world :: world where
  "parked_world =
     moveToFailed ''A'' ''HTTP 500'' (moveToFailed ''A'' ''HTTP 500'' (moveToFailed ''A'' ''HTTP 500''
       (addToQueue (example_operation ''A'' Delete (Some ''f1'') (Some 1) 0) empty_world)))"


section \<open>Required fields of an operation\<close>

text \<open>The test with which the handler for each source and type begins, negated.\<close>

definition missing_required_fields :: "SyncOperation \<Rightarrow> bool" where
  "missing_required_fields operation =
     (let d = op_data operation
      in case (op_source operation, op_type operation) of
           (SrcFirefox, Create) \<Rightarrow> \<not> truthy_str (d_url d) \<or> \<not> truthy_str (d_title d) \<or>
                                    \<not> truthy_num (d_collectionId d) \<or> \<not> truthy_str (d_firefoxId d)
         | (SrcFirefox, Update) \<Rightarrow> \<not> truthy_num (d_raindropId d)
         | (SrcFirefox, Delete) \<Rightarrow> \<not> truthy_num (d_raindropId d)
         | (SrcFirefox, Move) \<Rightarrow> \<not> truthy_num (d_raindropId d) \<or> \<not> truthy_num (d_newCollectionId d)
         | (SrcRaindrop, Create) \<Rightarrow> \<not> truthy_num (d_raindropId d) \<or> \<not> truthy_str (d_parentFolderId d)
         | (SrcRaindrop, Update) \<Rightarrow> \<not> truthy_str (d_firefoxId d) \<or> \<not> truthy_num (d_raindropId d)
         | (SrcRaindrop, Delete) \<Rightarrow> \<not> truthy_str (d_firefoxId d)
         | (SrcRaindrop, Move) \<Rightarrow> False)"

definition failure_record :: "env \<Rightarrow> SyncOperation \<Rightarrow> string \<Rightarrow> SyncError" where
  "failure_record E operation message =
     \<lparr>e_timestamp = now E,
      e_operation = type_name (op_type operation) @ '' '' @ entity_name (op_entityType operation),
      e_message = message,
      e_details = Some (JSON_stringify E (op_data operation))\<rparr>"

text \<open>One pending delete, and a processing lock with the given time stamp.\<close>

definition locked_world :: "int \<Rightarrow> world" where
  "locked_world timestamp =
     (queued_world [example_operation ''A'' Delete (Some ''f1'') (Some 1) 0])
       \<lparr>queue_processing_lock := Some timestamp\<rparr>"

text \<open>A create operation from the browser without url, title and collection id.\<close>

definition incomplete_create :: "int \<Rightarrow> SyncOperation" where
  "incomplete_create n = (example_operation ''A'' Create (Some ''f1'') None n)"





section \<open>Uniqueness of link identifiers\<close>

lemma links_unique_add:
  "links_unique (getBookmarkLinks w) \<Longrightarrow> links_unique (getBookmarkLinks (addBookmarkLink link w))"
  by (auto simp: links_unique_def addBookmarkLink_def getBookmarkLinks_def saveBookmarkLinks_def
      list_ex_iff Let_def)

lemma links_unique_remove:
  "links_unique (getBookmarkLinks w) \<Longrightarrow>
   links_unique (getBookmarkLinks (removeBookmarkLink linkId w))"
  by (simp add: links_unique_def removeBookmarkLink_def getBookmarkLinks_def saveBookmarkLinks_def
      distinct_map_filter)

text \<open>
  Claim C1. If no two stored links share a \<^verbatim>\<open>firefoxId\<close> and no two share a
  \<^verbatim>\<open>raindropId\<close>, the same holds after any sequence of \<^verbatim>\<open>addBookmarkLink\<close> and
  \<^verbatim>\<open>removeBookmarkLink\<close> calls. The stored list holds the links of all mappings, so the
  uniqueness is across mappings.
\<close>

theorem link_ids_unique_after_operations:
  "links_unique (getBookmarkLinks w) \<Longrightarrow>
   links_unique (getBookmarkLinks (foldl apply_link_operation w ops))"
proof (induction ops arbitrary: w)
  case Nil
  then show ?case by simp
next
  case (Cons operation ops)
  have "links_unique (getBookmarkLinks (apply_link_operation w operation))"
    using Cons.prems by (cases operation) (simp_all add: links_unique_add links_unique_remove)
  then show ?case using Cons.IH by simp
qed

text \<open>
  On a fresh profile: two additions are dropped because an identifier is taken, a removal
  frees both identifiers of the first link, and they can then be linked again.
\<close>

theorem link_ids_unique_after_operations_witness:
  "links_unique (getBookmarkLinks empty_world) \<and>
   getBookmarkLinks (foldl apply_link_operation empty_world example_operations)
     = [example_link ''L4'' ''f4'' 4 ''https://d.example/'' ''M2'',
        example_link ''L5'' ''f1'' 1 ''https://e.example/'' ''M2''] \<and>
   links_unique (getBookmarkLinks (foldl apply_link_operation empty_world example_operations))"
proof -
  have start: "links_unique (getBookmarkLinks empty_world)"
    by (simp add: links_unique_def getBookmarkLinks_def empty_world_def)
  have run: "getBookmarkLinks (foldl apply_link_operation empty_world example_operations)
     = [example_link ''L4'' ''f4'' 4 ''https://d.example/'' ''M2'',
        example_link ''L5'' ''f1'' 1 ''https://e.example/'' ''M2'']"
    by (simp add: example_operations_def addBookmarkLink_def removeBookmarkLink_def
        getBookmarkLinks_def saveBookmarkLinks_def empty_world_def example_link_def Let_def)
  from start run link_ids_unique_after_operations [OF start, of example_operations]
  show ?thesis by blast
qed

section \<open>Statistics\<close>

text \<open>
  Claim C9. Whatever is stored, the record that \<^verbatim>\<open>getSyncStats\<close> answers has as
  \<^verbatim>\<open>totalSynced\<close> the number of stored bookmark links; a \<^verbatim>\<open>totalSynced\<close> persisted in
  the statistics record is overridden.
\<close>

theorem getSyncStats_totalSynced:
  "totalSynced (getSyncStats w) = int (length (getBookmarkLinks w))"
  by (simp add: getSyncStats_def getBookmarkLinks_def Let_def)

section \<open>Conflicting additions\<close>

text \<open>
  Claim C10. \<^verbatim>\<open>addBookmarkLink\<close> with a link whose \<^verbatim>\<open>firefoxId\<close> or \<^verbatim>\<open>raindropId\<close>
  occurs in a stored link changes nothing and has no error outcome, whereas
  \<^verbatim>\<open>addFolderMapping\<close> with a mapping whose folder or collection occurs in a stored mapping
  throws the duplicate-mapping error.
\<close>

theorem addBookmarkLink_conflict_is_silent:
  "(l \<in> set (getBookmarkLinks w) \<and>
      (l_firefoxId l = l_firefoxId link \<or> l_raindropId l = l_raindropId link)
      \<longrightarrow> addBookmarkLink link w = w) \<and>
   (m \<in> set (getFolderMappings w) \<and>
      (m_firefoxFolderId m = m_firefoxFolderId mapping \<or>
       m_raindropCollectionId m = m_raindropCollectionId mapping)
      \<longrightarrow> addFolderMapping mapping w =
            (Threw ''Mapping already exists for this folder or collection'', w))"
proof (intro conjI impI)
  assume "l \<in> set (getBookmarkLinks w) \<and>
      (l_firefoxId l = l_firefoxId link \<or> l_raindropId l = l_raindropId link)"
  then have "list_ex (\<lambda>l. l_firefoxId l = l_firefoxId link \<or> l_raindropId l = l_raindropId link)
      (getBookmarkLinks w)"
    unfolding list_ex_iff by blast
  then show "addBookmarkLink link w = w"
    by (simp add: addBookmarkLink_def Let_def)
next
  assume "m \<in> set (getFolderMappings w) \<and>
      (m_firefoxFolderId m = m_firefoxFolderId mapping \<or>
       m_raindropCollectionId m = m_raindropCollectionId mapping)"
  then have "find (\<lambda>m. m_firefoxFolderId m = m_firefoxFolderId mapping \<or>
       m_raindropCollectionId m = m_raindropCollectionId mapping) (getFolderMappings w) \<noteq> None"
    unfolding find_None_iff by blast
  then show "addFolderMapping mapping w =
            (Threw ''Mapping already exists for this folder or collection'', w)"
    by (auto simp: addFolderMapping_def Let_def)
qed

text \<open>
  One stored link and one stored mapping: a second link for the same remote item is
  dropped silently, a second mapping for the same folder is refused.
\<close>

theorem addBookmarkLink_conflict_is_silent_witness:
  "addBookmarkLink (example_link ''L2'' ''f2'' 1 ''https://b.example/'' ''M1'') linked_world
     = linked_world \<and>
   addFolderMapping (example_mapping ''M2'' ''folder1'' 20) linked_world
     = (Threw ''Mapping already exists for this folder or collection'', linked_world)"
  using addBookmarkLink_conflict_is_silent
    [of "example_link ''L1'' ''f1'' 1 ''https://a.example/'' ''M1''" linked_world
        "example_link ''L2'' ''f2'' 1 ''https://b.example/'' ''M1''"
        "example_mapping ''M1'' ''folder1'' 10" "example_mapping ''M2'' ''folder1'' 20"]
  by (simp add: linked_world_def getBookmarkLinks_def getFolderMappings_def example_link_def
      example_mapping_def)

section \<open>The operation queue\<close>

lemma getQueue_mutate_and_save [simp]: "getQueue (mutate_and_save_queue q w) = q"
  by (simp add: getQueue_def mutate_and_save_queue_def)

lemma same_key_sym: "same_key a b \<Longrightarrow> same_key b a"
  by (simp add: same_key_def)

lemma same_key_trans: "same_key a b \<Longrightarrow> same_key b c \<Longrightarrow> same_key a c"
  by (simp add: same_key_def)

lemma addToQueue_present:
  assumes "queued \<in> set (pending (getQueue w))" and "same_key queued operation"
  shows "addToQueue operation w = w"
proof -
  from assms have "find (\<lambda>op. same_key op operation) (pending (getQueue w)) \<noteq> None"
    unfolding find_None_iff by blast
  then show ?thesis by (auto simp: addToQueue_def Let_def)
qed

lemma addToQueue_absent:
  assumes "\<forall>op \<in> set (pending (getQueue w)). \<not> same_key op operation"
  shows "pending (getQueue (addToQueue operation w)) = pending (getQueue w) @ [operation]"
proof -
  from assms have "find (\<lambda>op. same_key op operation) (pending (getQueue w)) = None"
    unfolding find_None_iff by blast
  then show ?thesis by (simp add: addToQueue_def Let_def)
qed

lemma addToQueue_failed_untouched:
  "failed (getQueue (addToQueue operation w)) = failed (getQueue w)"
  by (simp add: addToQueue_def Let_def split: option.split)

text \<open>
  Claim C6, as the code has it. \<^verbatim>\<open>addToQueue\<close> compares the new operation with the
  pending operations only. Enqueuing an operation whose
  \<^verbatim>\<open>(type, source, firefoxId, raindropId)\<close> equals that of a pending operation leaves the
  queue (indeed the whole state) unchanged. When no pending operation has the tuple, the
  operation is appended to \<^verbatim>\<open>pending\<close>, whatever the failed partition holds, and the
  failed partition stays as it is; enqueuing two operations with the tuple one after the
  other then leaves exactly one pending operation with that tuple.
\<close>

theorem addToQueue_deduplicates:
  "(queued \<in> set (pending (getQueue w)) \<and> same_key queued operation
      \<longrightarrow> addToQueue operation w = w) \<and>
   ((\<forall>op \<in> set (pending (getQueue w)). \<not> same_key op first)
      \<longrightarrow> getQueue (addToQueue first w)
            = \<lparr>pending = pending (getQueue w) @ [first], failed = failed (getQueue w)\<rparr>) \<and>
   (same_key second first \<and> (\<forall>op \<in> set (pending (getQueue w)). \<not> same_key op first)
      \<longrightarrow> addToQueue second (addToQueue first w) = addToQueue first w \<and>
          length (filter (\<lambda>op. same_key op first)
                    (pending (getQueue (addToQueue second (addToQueue first w))))) = 1)"
proof (intro conjI impI)
  assume "queued \<in> set (pending (getQueue w)) \<and> same_key queued operation"
  then show "addToQueue operation w = w" by (blast intro: addToQueue_present)
next
  assume "\<forall>op \<in> set (pending (getQueue w)). \<not> same_key op first"
  then have "pending (getQueue (addToQueue first w)) = pending (getQueue w) @ [first]"
    by (simp add: addToQueue_absent)
  then show "getQueue (addToQueue first w)
      = \<lparr>pending = pending (getQueue w) @ [first], failed = failed (getQueue w)\<rparr>"
    using addToQueue_failed_untouched [of first w]
    by (metis SyncQueue.surjective old.unit.exhaust)
next
  assume a: "same_key second first \<and> (\<forall>op \<in> set (pending (getQueue w)). \<not> same_key op first)"
  then have p: "pending (getQueue (addToQueue first w)) = pending (getQueue w) @ [first]"
    by (simp add: addToQueue_absent)
  have "same_key first second" using a by (simp add: same_key_sym)
  moreover have "first \<in> set (pending (getQueue (addToQueue first w)))" using p by simp
  ultimately show u: "addToQueue second (addToQueue first w) = addToQueue first w"
    by (rule addToQueue_present [rotated])
  have "filter (\<lambda>op. same_key op first) (pending (getQueue w)) = []"
    using a by (simp add: filter_empty_conv)
  moreover have "same_key first first" by (simp add: same_key_def)
  ultimately show "length (filter (\<lambda>op. same_key op first)
      (pending (getQueue (addToQueue second (addToQueue first w))))) = 1"
    using p by (simp add: u)
qed

text \<open>
  A pending delete is not enqueued again; of two updates for the same pair of
  identifiers the first is enqueued and the second is dropped.
\<close>

theorem addToQueue_deduplicates_witness:
  "addToQueue (example_operation ''B'' Delete (Some ''f1'') (Some 1) 0)
      (queued_world [example_operation ''A'' Delete (Some ''f1'') (Some 1) 2])
     = queued_world [example_operation ''A'' Delete (Some ''f1'') (Some 1) 2] \<and>
   getQueue
      (addToQueue (example_operation ''D'' Update (Some ''f1'') (Some 1) 0)
        (addToQueue (example_operation ''C'' Update (Some ''f1'') (Some 1) 0)
          (queued_world [example_operation ''A'' Delete (Some ''f1'') (Some 1) 2])))
     = \<lparr>pending = [example_operation ''A'' Delete (Some ''f1'') (Some 1) 2,
                   example_operation ''C'' Update (Some ''f1'') (Some 1) 0],
        failed = []\<rparr> \<and>
   length (filter (\<lambda>op. same_key op (example_operation ''C'' Update (Some ''f1'') (Some 1) 0))
      (pending (getQueue
        (addToQueue (example_operation ''D'' Update (Some ''f1'') (Some 1) 0)
          (addToQueue (example_operation ''C'' Update (Some ''f1'') (Some 1) 0)
            (queued_world [example_operation ''A'' Delete (Some ''f1'') (Some 1) 2])))))) = 1"
proof -
  let ?w = "queued_world [example_operation ''A'' Delete (Some ''f1'') (Some 1) 2]"
  let ?A = "example_operation ''A'' Delete (Some ''f1'') (Some 1) 2"
  let ?B = "example_operation ''B'' Delete (Some ''f1'') (Some 1) 0"
  let ?C = "example_operation ''C'' Update (Some ''f1'') (Some 1) 0"
  let ?D = "example_operation ''D'' Update (Some ''f1'') (Some 1) 0"
  have pend: "pending (getQueue ?w) = [?A]"
    and fail: "failed (getQueue ?w) = []"
    by (simp_all add: queued_world_def getQueue_def)
  have keys: "same_key ?A ?B" "same_key ?D ?C" "\<not> same_key ?A ?C" "same_key ?C ?C"
    by (simp_all add: same_key_def example_operation_def)
  have present: "?A \<in> set (pending (getQueue ?w)) \<and> same_key ?A ?B"
    and absent: "same_key ?D ?C \<and> (\<forall>op \<in> set (pending (getQueue ?w)). \<not> same_key op ?C)"
    using keys by (simp_all add: pend)
  have dropped: "addToQueue ?B ?w = ?w"
    using present by (rule addToQueue_deduplicates [THEN conjunct1, rule_format])
  have "getQueue (addToQueue ?C ?w)
      = \<lparr>pending = pending (getQueue ?w) @ [?C], failed = failed (getQueue ?w)\<rparr>"
    by (rule addToQueue_deduplicates [THEN conjunct2, THEN conjunct1, rule_format])
      (simp add: pend keys)
  then have appended: "getQueue (addToQueue ?C ?w) = \<lparr>pending = [?A, ?C], failed = []\<rparr>"
    by (simp add: pend fail)
  have again: "addToQueue ?D (addToQueue ?C ?w) = addToQueue ?C ?w \<and>
      length (filter (\<lambda>op. same_key op ?C)
        (pending (getQueue (addToQueue ?D (addToQueue ?C ?w))))) = 1"
    using absent by (rule addToQueue_deduplicates [THEN conjunct2, THEN conjunct2, rule_format])
  from dropped appended again show ?thesis by (simp add: keys)
qed

text \<open>
  Against claim C6 as stated, where a queue state has two partitions and a parked
  operation is a queued one. Operation A is enqueued on a fresh profile and fails three
  times, so it is parked in \<^verbatim>\<open>failed\<close>. Operation B with A's tuple is then enqueued: it is
  appended to \<^verbatim>\<open>pending\<close>, the queue is not left unchanged and holds two operations with
  the tuple. After \<^verbatim>\<open>retryFailed\<close> both are pending, and a third enqueue with the tuple is
  dropped and leaves two pending operations with it, not one.
\<close>

theorem addToQueue_parked_counterexample:
  "getQueue parked_world
     = \<lparr>pending = [],
        failed = [(example_operation ''A'' Delete (Some ''f1'') (Some 1) 3)
                    \<lparr>op_lastError := Some ''HTTP 500''\<rparr>]\<rparr> \<and>
   getQueue (addToQueue (example_operation ''B'' Delete (Some ''f1'') (Some 1) 0) parked_world)
     = \<lparr>pending = [example_operation ''B'' Delete (Some ''f1'') (Some 1) 0],
        failed = [(example_operation ''A'' Delete (Some ''f1'') (Some 1) 3)
                    \<lparr>op_lastError := Some ''HTTP 500''\<rparr>]\<rparr> \<and>
   getQueue (addToQueue (example_operation ''C'' Delete (Some ''f1'') (Some 1) 0)
      (retryFailed
        (addToQueue (example_operation ''B'' Delete (Some ''f1'') (Some 1) 0) parked_world)))
     = \<lparr>pending = [example_operation ''B'' Delete (Some ''f1'') (Some 1) 0,
                   example_operation ''A'' Delete (Some ''f1'') (Some 1) 0],
        failed = []\<rparr>"
  by (simp add: parked_world_def addToQueue_def moveToFailed_def retryFailed_def getQueue_def
      mutate_and_save_queue_def record_failure_def same_key_def slice_last_def
      MAX_FAILED_QUEUE_def empty_world_def example_operation_def Let_def)

lemma find_update_first_filter:
  "filter (\<lambda>x. \<not> P x) (update_first P f xs) = filter (\<lambda>x. \<not> P x) xs" if "\<And>x. P x \<Longrightarrow> P (f x)"
  using that by (induction xs) auto

lemma slice_last_length: "length (slice_last n xs) \<le> n"
  by (simp add: slice_last_def)

lemma slice_last_last: "0 < n \<Longrightarrow> slice_last n (xs @ [x]) \<noteq> [] \<and> last (slice_last n (xs @ [x])) = x"
  by (simp add: slice_last_def)

lemma moveToFailed_absent:
  "find (\<lambda>op. op_id op = operationId) (pending (getQueue w)) = None \<Longrightarrow>
   moveToFailed operationId errorMessage w = w"
  by (simp add: moveToFailed_def Let_def)

lemma moveToFailed_queue:
  assumes "find (\<lambda>op. op_id op = operationId) (pending (getQueue w)) = Some found"
  shows "getQueue (moveToFailed operationId errorMessage w) =
     (if op_maxRetries found \<le> op_retries found + 1
      then \<lparr>pending = filter (\<lambda>op. op_id op \<noteq> operationId) (pending (getQueue w)),
            failed = slice_last MAX_FAILED_QUEUE
                       (failed (getQueue w) @ [record_failure errorMessage found])\<rparr>
      else \<lparr>pending = update_first (\<lambda>op. op_id op = operationId)
                         (\<lambda>_. record_failure errorMessage found) (pending (getQueue w)),
            failed = failed (getQueue w)\<rparr>)"
proof -
  have "op_id found = operationId"
    using assms by (auto simp: find_Some_iff)
  then have keep: "op_id x = operationId \<Longrightarrow> op_id (record_failure errorMessage found) = operationId" for x :: SyncOperation
    by (simp add: record_failure_def)
  have "filter (\<lambda>op. op_id op \<noteq> operationId)
          (update_first (\<lambda>op. op_id op = operationId) (\<lambda>_. record_failure errorMessage found)
             (pending (getQueue w)))
        = filter (\<lambda>op. op_id op \<noteq> operationId) (pending (getQueue w))"
    using find_update_first_filter [of "\<lambda>op. op_id op = operationId"
        "\<lambda>_. record_failure errorMessage found" "pending (getQueue w)"] keep
    by simp
  then show ?thesis
    using assms
    by (simp add: moveToFailed_def Let_def slice_last_def record_failure_def)
qed

text \<open>
  Claim C5. \<^verbatim>\<open>moveToFailed\<close> on a pending operation raises its retry counter by one and
  records the error text. If the raised counter has reached \<^verbatim>\<open>maxRetries\<close>, every
  operation with that id leaves \<^verbatim>\<open>pending\<close> and the operation is appended to \<^verbatim>\<open>failed\<close>,
  of which the newest hundred entries are kept: the entries that were there are dropped
  from the front, the oldest first, until a hundred are left, and the operation is the
  last entry. A further \<^verbatim>\<open>moveToFailed\<close> for the same id then changes nothing, so the
  operation is parked once. If the raised counter is below \<^verbatim>\<open>maxRetries\<close>, the operation
  stays in \<^verbatim>\<open>pending\<close> with the raised counter and \<^verbatim>\<open>failed\<close> is as before.
\<close>

theorem moveToFailed_counts_and_parks:
  assumes "find (\<lambda>op. op_id op = operationId) (pending (getQueue w)) = Some found"
  shows "record_failure errorMessage found
           = found\<lparr>op_retries := op_retries found + 1, op_lastError := Some errorMessage\<rparr> \<and>
         (op_maxRetries found \<le> op_retries found + 1 \<longrightarrow>
            pending (getQueue (moveToFailed operationId errorMessage w))
              = filter (\<lambda>op. op_id op \<noteq> operationId) (pending (getQueue w)) \<and>
            failed (getQueue (moveToFailed operationId errorMessage w))
              = drop (length (failed (getQueue w)) + 1 - 100)
                  (failed (getQueue w) @ [record_failure errorMessage found]) \<and>
            last (failed (getQueue (moveToFailed operationId errorMessage w)))
              = record_failure errorMessage found \<and>
            length (failed (getQueue (moveToFailed operationId errorMessage w)))
              = min 100 (length (failed (getQueue w)) + 1) \<and>
            moveToFailed operationId errorMessage' (moveToFailed operationId errorMessage w)
              = moveToFailed operationId errorMessage w) \<and>
         (op_retries found + 1 < op_maxRetries found \<longrightarrow>
            pending (getQueue (moveToFailed operationId errorMessage w))
              = update_first (\<lambda>op. op_id op = operationId)
                  (\<lambda>_. record_failure errorMessage found) (pending (getQueue w)) \<and>
            failed (getQueue (moveToFailed operationId errorMessage w)) = failed (getQueue w))"
proof (intro conjI impI)
  show "record_failure errorMessage found
      = found\<lparr>op_retries := op_retries found + 1, op_lastError := Some errorMessage\<rparr>"
    by (simp add: record_failure_def)
next
  assume reached: "op_maxRetries found \<le> op_retries found + 1"
  with moveToFailed_queue [OF assms, of errorMessage]
  have q: "getQueue (moveToFailed operationId errorMessage w) =
      \<lparr>pending = filter (\<lambda>op. op_id op \<noteq> operationId) (pending (getQueue w)),
       failed = drop (length (failed (getQueue w)) + 1 - 100)
                  (failed (getQueue w) @ [record_failure errorMessage found])\<rparr>"
    by (simp add: slice_last_def MAX_FAILED_QUEUE_def)
  show "pending (getQueue (moveToFailed operationId errorMessage w))
      = filter (\<lambda>op. op_id op \<noteq> operationId) (pending (getQueue w))"
    by (simp add: q)
  show "failed (getQueue (moveToFailed operationId errorMessage w))
      = drop (length (failed (getQueue w)) + 1 - 100)
          (failed (getQueue w) @ [record_failure errorMessage found])"
    by (simp add: q)
  show "last (failed (getQueue (moveToFailed operationId errorMessage w)))
      = record_failure errorMessage found"
    by (simp add: q)
  show "length (failed (getQueue (moveToFailed operationId errorMessage w)))
      = min 100 (length (failed (getQueue w)) + 1)"
    by (simp add: q)
  have "find (\<lambda>op. op_id op = operationId)
      (pending (getQueue (moveToFailed operationId errorMessage w))) = None"
    by (simp add: q find_None_iff)
  then show "moveToFailed operationId errorMessage' (moveToFailed operationId errorMessage w)
      = moveToFailed operationId errorMessage w"
    by (rule moveToFailed_absent)
next
  assume below: "op_retries found + 1 < op_maxRetries found"
  with moveToFailed_queue [OF assms, of errorMessage]
  have q: "getQueue (moveToFailed operationId errorMessage w) =
      \<lparr>pending = update_first (\<lambda>op. op_id op = operationId)
                         (\<lambda>_. record_failure errorMessage found) (pending (getQueue w)),
            failed = failed (getQueue w)\<rparr>"
    by simp
  show "pending (getQueue (moveToFailed operationId errorMessage w))
      = update_first (\<lambda>op. op_id op = operationId)
          (\<lambda>_. record_failure errorMessage found) (pending (getQueue w))"
    by (simp add: q)
  show "failed (getQueue (moveToFailed operationId errorMessage w)) = failed (getQueue w)"
    by (simp add: q)
qed

text \<open>
  With \<^verbatim>\<open>maxRetries = 3\<close> and a failed partition that holds a hundred entries: the third
  failure parks operation A behind them and the oldest of them is evicted; the first
  failure of operation B only raises its counter.
\<close>

theorem moveToFailed_counts_and_parks_witness:
  "length parked_entries = 100 \<and>
   getQueue (moveToFailed ''A'' ''HTTP 500'' full_world)
     = \<lparr>pending = [example_operation ''B'' Update (Some ''f2'') (Some 2) 0],
        failed = tl parked_entries @
                   [(example_operation ''A'' Delete (Some ''f1'') (Some 1) 3)
                      \<lparr>op_lastError := Some ''HTTP 500''\<rparr>]\<rparr> \<and>
   getQueue (moveToFailed ''B'' ''HTTP 500'' full_world)
     = \<lparr>pending = [example_operation ''A'' Delete (Some ''f1'') (Some 1) 2,
                   (example_operation ''B'' Update (Some ''f2'') (Some 2) 1)
                     \<lparr>op_lastError := Some ''HTTP 500''\<rparr>],
        failed = parked_entries\<rparr>"
proof -
  let ?A = "example_operation ''A'' Delete (Some ''f1'') (Some 1) 2"
  let ?B = "example_operation ''B'' Update (Some ''f2'') (Some 2) 0"
  have full: "length parked_entries = 100"
    by (simp add: parked_entries_def)
  have pend: "pending (getQueue full_world) = [?A, ?B]"
    and fail: "failed (getQueue full_world) = parked_entries"
    by (simp_all add: full_world_def getQueue_def)
  have ids: "op_id ?A = ''A''" "op_id ?B = ''B''"
    and counts: "op_retries ?A = 2" "op_maxRetries ?A = 3" "op_retries ?B = 0" "op_maxRetries ?B = 3"
    by (simp_all add: example_operation_def)
  have foundA: "find (\<lambda>op. op_id op = ''A'') (pending (getQueue full_world)) = Some ?A"
    and foundB: "find (\<lambda>op. op_id op = ''B'') (pending (getQueue full_world)) = Some ?B"
    by (simp_all add: pend ids)
  have rec: "record_failure ''HTTP 500'' ?A
        = (example_operation ''A'' Delete (Some ''f1'') (Some 1) 3)\<lparr>op_lastError := Some ''HTTP 500''\<rparr>"
      "record_failure ''HTTP 500'' ?B
        = (example_operation ''B'' Update (Some ''f2'') (Some 2) 1)\<lparr>op_lastError := Some ''HTTP 500''\<rparr>"
    by (simp_all add: record_failure_def example_operation_def)
  from moveToFailed_counts_and_parks [OF foundA, of "''HTTP 500''", THEN conjunct2]
  have "pending (getQueue (moveToFailed ''A'' ''HTTP 500'' full_world)) = [?B]"
    and "failed (getQueue (moveToFailed ''A'' ''HTTP 500'' full_world))
      = tl parked_entries @
          [(example_operation ''A'' Delete (Some ''f1'') (Some 1) 3)\<lparr>op_lastError := Some ''HTTP 500''\<rparr>]"
    by (simp_all add: counts pend fail ids rec full drop_Suc)
  moreover
  from moveToFailed_counts_and_parks [OF foundB, of "''HTTP 500''", THEN conjunct2]
  have "pending (getQueue (moveToFailed ''B'' ''HTTP 500'' full_world))
        = [?A, (example_operation ''B'' Update (Some ''f2'') (Some 2) 1)\<lparr>op_lastError := Some ''HTTP 500''\<rparr>]"
    and "failed (getQueue (moveToFailed ''B'' ''HTTP 500'' full_world)) = parked_entries"
    by (simp_all add: counts pend fail ids rec)
  ultimately show ?thesis
    using full by (metis SyncQueue.surjective old.unit.exhaust)
qed

section \<open>The processing lock\<close>

lemma process_loop_done: "length (pending (held queue w)) \<le> i \<Longrightarrow> process_loop E queue i w = w"
  by (subst process_loop.simps) simp

lemma process_loop_step:
  "i < length (pending (held queue w)) \<Longrightarrow>
   process_loop E queue i w
     = process_loop E queue (Suc i) (process_one E queue i (pending (held queue w) ! i) w)"
  by (subst process_loop.simps) simp

lemma process_loop_copy:
  "process_loop E (Copy q) i w =
     foldl (\<lambda>v (j, operation). process_one E (Copy q) j operation v) w
       (drop i (zip [0..<length (pending q)] (pending q)))"
proof (induction "length (pending q) - i" arbitrary: i w)
  case 0
  then show ?case by (simp add: process_loop_done held_def)
next
  case (Suc n)
  then have less: "i < length (pending q)" by simp
  have "drop i (zip [0..<length (pending q)] (pending q))
      = (i, pending q ! i) # drop (Suc i) (zip [0..<length (pending q)] (pending q))"
    using less by (simp add: Cons_nth_drop_Suc [symmetric])
  moreover have "n = length (pending q) - Suc i" using Suc.hyps(2) by simp
  ultimately show ?case
    using less Suc.hyps(1) [of "Suc i"] by (simp add: process_loop_step held_def)
qed

lemma acquireLock_young:
  "queue_processing_lock w = Some timestamp \<Longrightarrow> now E - timestamp < PROCESSING_LOCK_TIMEOUT \<Longrightarrow>
   acquireLock E w = (False, w)"
  by (simp add: acquireLock_def)

lemma acquireLock_free:
  "queue_processing_lock w = None \<or>
   (\<exists>timestamp. queue_processing_lock w = Some timestamp \<and> PROCESSING_LOCK_TIMEOUT \<le> now E - timestamp) \<Longrightarrow>
   acquireLock E w = (True, w\<lparr>queue_processing_lock := Some (now E)\<rparr>)"
  by (auto simp: acquireLock_def)

lemma processQueue_acquired:
  assumes "acquireLock E w = (True, w1)"
  shows "processQueue E w
     = emit (SetSyncing False) (releaseLock (process_loop E (getQueue_ref w) 0 (emit (SetSyncing True) w1)))"
proof -
  have w1: "w1 = w\<lparr>queue_processing_lock := Some (now E)\<rparr>"
    using assms by (auto simp: acquireLock_def split: option.splits if_splits)
  have ref: "getQueue_ref (emit (SetSyncing True) w1) = getQueue_ref w"
    by (simp add: w1 getQueue_ref_def emit_def)
  show ?thesis
    using assms by (simp add: processQueue_def Let_def ref process_loop_done)
qed

lemma processQueue_stored:
  assumes "queue_processing_lock w = None" and "sync_queue w = Some q"
  shows "processQueue E w
     = emit (SetSyncing False) (releaseLock
         (foldl (\<lambda>v (i, operation). process_one E (Copy q) i operation v)
            (emit (SetSyncing True) (w\<lparr>queue_processing_lock := Some (now E)\<rparr>))
            (zip [0..<length (pending q)] (pending q))))"
proof -
  have "acquireLock E w = (True, w\<lparr>queue_processing_lock := Some (now E)\<rparr>)"
    using assms(1) by (intro acquireLock_free) simp
  then have "processQueue E w
      = emit (SetSyncing False) (releaseLock (process_loop E (getQueue_ref w) 0
          (emit (SetSyncing True) (w\<lparr>queue_processing_lock := Some (now E)\<rparr>))))"
    by (rule processQueue_acquired)
  moreover have "getQueue_ref w = Copy q"
    using assms(2) by (simp add: getQueue_ref_def)
  ultimately show ?thesis
    by (simp add: process_loop_copy)
qed

text \<open>
  Claim C7. If the stored lock is younger than \<^verbatim>\<open>PROCESSING_LOCK_TIMEOUT\<close> (5 minutes),
  \<^verbatim>\<open>processQueue\<close> returns with nothing changed: no operation is processed. If the stored
  lock is older, the lock is taken over with the current time and the loop over the
  pending operations runs, after which the lock is released; when a queue is stored, the
  loop passes every pending operation, in order, to its handler and to the bookkeeping
  that follows it (\<open>process_one\<close>).
\<close>

theorem processQueue_respects_lock:
  "(queue_processing_lock w = Some timestamp \<and> now E - timestamp < PROCESSING_LOCK_TIMEOUT
      \<longrightarrow> processQueue E w = w) \<and>
   (queue_processing_lock w = Some timestamp \<and> PROCESSING_LOCK_TIMEOUT < now E - timestamp
      \<longrightarrow> acquireLock E w = (True, w\<lparr>queue_processing_lock := Some (now E)\<rparr>) \<and>
          processQueue E w
            = emit (SetSyncing False) (releaseLock
                (process_loop E (getQueue_ref w) 0
                   (emit (SetSyncing True) (w\<lparr>queue_processing_lock := Some (now E)\<rparr>)))) \<and>
          (sync_queue w = Some q \<longrightarrow>
             processQueue E w
               = emit (SetSyncing False) (releaseLock
                   (foldl (\<lambda>v (i, operation). process_one E (Copy q) i operation v)
                      (emit (SetSyncing True) (w\<lparr>queue_processing_lock := Some (now E)\<rparr>))
                      (zip [0..<length (pending q)] (pending q))))))"
proof (intro conjI impI)
  assume "queue_processing_lock w = Some timestamp \<and> now E - timestamp < PROCESSING_LOCK_TIMEOUT"
  then show "processQueue E w = w"
    by (simp add: processQueue_def acquireLock_young)
next
  assume stale: "queue_processing_lock w = Some timestamp \<and> PROCESSING_LOCK_TIMEOUT < now E - timestamp"
  then show acq: "acquireLock E w = (True, w\<lparr>queue_processing_lock := Some (now E)\<rparr>)"
    by (intro acquireLock_free) auto
  then show run: "processQueue E w
      = emit (SetSyncing False) (releaseLock
          (process_loop E (getQueue_ref w) 0
             (emit (SetSyncing True) (w\<lparr>queue_processing_lock := Some (now E)\<rparr>))))"
    by (rule processQueue_acquired)
  assume "sync_queue w = Some q"
  then have "getQueue_ref w = Copy q" by (simp add: getQueue_ref_def)
  then show "processQueue E w
      = emit (SetSyncing False) (releaseLock
          (foldl (\<lambda>v (i, operation). process_one E (Copy q) i operation v)
             (emit (SetSyncing True) (w\<lparr>queue_processing_lock := Some (now E)\<rparr>))
             (zip [0..<length (pending q)] (pending q))))"
    by (simp add: run process_loop_copy)
qed

lemmas handler_defs = processOperation_def processFirefoxOperation_def processRaindropOperation_def
  pushCreateToRaindrop_def pushUpdateToRaindrop_def pushDeleteToRaindrop_def
  pushMoveToRaindrop_def pullCreateFromRaindrop_def pullUpdateFromRaindrop_def
  pullDeleteFromRaindrop_def

lemmas storage_defs = emit_def addBookmarkLink_def updateBookmarkLink_def removeBookmarkLink_def
  saveBookmarkLinks_def getBookmarkLinks_def findBookmarkLink_def removeFromQueue_def
  moveToFailed_def getQueue_def mutate_and_save_queue_def updateSyncStats_def getSyncStats_def
  addSyncError_def releaseLock_def truthy_str_def truthy_num_def str_of_def num_of_def
  record_failure_def held_def DEFAULT_SYNC_STATS_def

text \<open>
  With the clock at 1000000: under a lock stamped 900000 nothing happens; a lock stamped 0
  is taken over, the pending delete is pushed to the remote service and leaves the queue,
  and the lock is released.
\<close>

theorem processQueue_respects_lock_witness:
  "processQueue quiet_env (locked_world 900000) = locked_world 900000 \<and>
   queue_processing_lock (processQueue quiet_env (locked_world 0)) = None \<and>
   pending (getQueue (processQueue quiet_env (locked_world 0))) = [] \<and>
   trace (processQueue quiet_env (locked_world 0))
     = [SetSyncing True, DeleteRaindrop 1, SetSyncing False]"
proof -
  let ?q = "\<lparr>pending = [example_operation ''A'' Delete (Some ''f1'') (Some 1) 0], failed = []\<rparr>"
  have lock: "queue_processing_lock (locked_world t) = Some t"
    and queue: "sync_queue (locked_world t) = Some ?q" for t
    by (simp_all add: locked_world_def queued_world_def)
  have clock: "now quiet_env = 1000000"
    by (simp add: quiet_env_def)
  have young: "processQueue quiet_env (locked_world 900000) = locked_world 900000"
    using processQueue_respects_lock [of "locked_world 900000" 900000 quiet_env ?q]
    by (simp add: lock clock PROCESSING_LOCK_TIMEOUT_def)
  have stale: "processQueue quiet_env (locked_world 0)
      = emit (SetSyncing False) (releaseLock
          (foldl (\<lambda>v (i, operation). process_one quiet_env (Copy ?q) i operation v)
             (emit (SetSyncing True) ((locked_world 0)\<lparr>queue_processing_lock := Some (now quiet_env)\<rparr>))
             (zip [0..<length (pending ?q)] (pending ?q))))"
    by (rule processQueue_respects_lock [of "locked_world 0" 0 quiet_env ?q,
          THEN conjunct2, rule_format, THEN conjunct2, THEN conjunct2, rule_format])
      (simp_all add: lock queue clock PROCESSING_LOCK_TIMEOUT_def)
  have run: "queue_processing_lock (processQueue quiet_env (locked_world 0)) = None"
    "pending (getQueue (processQueue quiet_env (locked_world 0))) = []"
    "trace (processQueue quiet_env (locked_world 0))
       = [SetSyncing True, DeleteRaindrop 1, SetSyncing False]"
    unfolding stale
    by (simp_all add: process_one_def handler_defs storage_defs Let_def locked_world_def
        queued_world_def empty_world_def example_operation_def quiet_env_def)
  from young run show ?thesis by simp
qed

section \<open>Operations with missing fields\<close>

lemma getQueue_addSyncError [simp]: "getQueue (addSyncError e w) = getQueue w"
  by (simp add: addSyncError_def updateSyncStats_def getQueue_def Let_def split: option.split)

lemma missing_fields_throw:
  assumes "missing_required_fields operation"
  shows "\<exists>message. processOperation E operation w = (Threw message, w)"
proof (cases "op_source operation")
  case SrcFirefox
  with assms show ?thesis
    by (cases "op_type operation")
      (auto simp: missing_required_fields_def processOperation_def processFirefoxOperation_def
        pushCreateToRaindrop_def pushUpdateToRaindrop_def pushDeleteToRaindrop_def
        pushMoveToRaindrop_def Let_def)
next
  case SrcRaindrop
  with assms show ?thesis
    by (cases "op_type operation")
      (auto simp: missing_required_fields_def processOperation_def processRaindropOperation_def
        pullCreateFromRaindrop_def pullUpdateFromRaindrop_def pullDeleteFromRaindrop_def Let_def)
qed

lemma process_one_failure:
  "processOperation E operation w = (Threw message, w1) \<Longrightarrow>
   process_one E queue i operation w
     = addSyncError (failure_record E operation message) (moveToFailed (op_id operation) message w1)"
  by (simp add: process_one_def failure_record_def Let_def)

text \<open>
  Claim C3, as the code has it. The claim says that an operation whose required fields are
  missing is rejected synchronously, never queued and never retried. In the code
  \<^verbatim>\<open>addToQueue\<close> does not look at the fields, so such an operation is enqueued like any
  other. When it is processed, its handler throws before any outside call and before any
  change of the state, and \<^verbatim>\<open>processQueue\<close> treats that like every other failure: it
  calls \<^verbatim>\<open>moveToFailed\<close> and \<^verbatim>\<open>addSyncError\<close>. So the retry counter goes up by one
  and the message is recorded, and the operation moves to \<^verbatim>\<open>failed\<close> once the counter
  has reached \<^verbatim>\<open>maxRetries\<close>.
\<close>

theorem missing_fields_are_queued_and_retried:
  assumes "missing_required_fields operation"
  shows "((\<forall>op \<in> set (pending (getQueue w0)). \<not> same_key op operation) \<longrightarrow>
            pending (getQueue (addToQueue operation w0)) = pending (getQueue w0) @ [operation]) \<and>
         (\<exists>message.
            processOperation E operation w = (Threw message, w) \<and>
            process_one E queue i operation w
              = addSyncError (failure_record E operation message)
                  (moveToFailed (op_id operation) message w) \<and>
            (find (\<lambda>op. op_id op = op_id operation) (pending (getQueue w)) = Some operation \<longrightarrow>
               getQueue (process_one E queue i operation w) =
                 (if op_maxRetries operation \<le> op_retries operation + 1
                  then \<lparr>pending = filter (\<lambda>op. op_id op \<noteq> op_id operation) (pending (getQueue w)),
                        failed = slice_last MAX_FAILED_QUEUE
                                   (failed (getQueue w) @ [record_failure message operation])\<rparr>
                  else \<lparr>pending = update_first (\<lambda>op. op_id op = op_id operation)
                                     (\<lambda>_. record_failure message operation) (pending (getQueue w)),
                        failed = failed (getQueue w)\<rparr>)))"
proof (intro conjI impI)
  assume "\<forall>op \<in> set (pending (getQueue w0)). \<not> same_key op operation"
  then have "find (\<lambda>op. same_key op operation) (pending (getQueue w0)) = None"
    unfolding find_None_iff by blast
  then show "pending (getQueue (addToQueue operation w0)) = pending (getQueue w0) @ [operation]"
    by (simp add: addToQueue_def Let_def)
next
  from missing_fields_throw [OF assms]
  obtain message where thrown: "processOperation E operation w = (Threw message, w)"
    by blast
  have one: "process_one E queue i operation w
      = addSyncError (failure_record E operation message) (moveToFailed (op_id operation) message w)"
    using thrown by (rule process_one_failure)
  have "find (\<lambda>op. op_id op = op_id operation) (pending (getQueue w)) = Some operation \<longrightarrow>
      getQueue (process_one E queue i operation w) =
        (if op_maxRetries operation \<le> op_retries operation + 1
         then \<lparr>pending = filter (\<lambda>op. op_id op \<noteq> op_id operation) (pending (getQueue w)),
               failed = slice_last MAX_FAILED_QUEUE
                          (failed (getQueue w) @ [record_failure message operation])\<rparr>
         else \<lparr>pending = update_first (\<lambda>op. op_id op = op_id operation)
                            (\<lambda>_. record_failure message operation) (pending (getQueue w)),
               failed = failed (getQueue w)\<rparr>)"
    by (simp add: one moveToFailed_queue)
  with thrown one show "\<exists>message.
      processOperation E operation w = (Threw message, w) \<and>
      process_one E queue i operation w
        = addSyncError (failure_record E operation message)
            (moveToFailed (op_id operation) message w) \<and>
      (find (\<lambda>op. op_id op = op_id operation) (pending (getQueue w)) = Some operation \<longrightarrow>
         getQueue (process_one E queue i operation w) =
           (if op_maxRetries operation \<le> op_retries operation + 1
            then \<lparr>pending = filter (\<lambda>op. op_id op \<noteq> op_id operation) (pending (getQueue w)),
                  failed = slice_last MAX_FAILED_QUEUE
                             (failed (getQueue w) @ [record_failure message operation])\<rparr>
            else \<lparr>pending = update_first (\<lambda>op. op_id op = op_id operation)
                               (\<lambda>_. record_failure message operation) (pending (getQueue w)),
                  failed = failed (getQueue w)\<rparr>))"
    by blast
qed

text \<open>
  A create operation without url, title and collection id is enqueued on a fresh
  profile; processing it once leaves it pending with one retry and the message.
\<close>

theorem missing_fields_are_queued_and_retried_witness:
  "missing_required_fields (incomplete_create 0) \<and>
   pending (getQueue (addToQueue (incomplete_create 0) empty_world)) = [incomplete_create 0] \<and>
   getQueue (process_one quiet_env (Copy \<lparr>pending = [incomplete_create 0], failed = []\<rparr>) 0
               (incomplete_create 0) (queued_world [incomplete_create 0]))
     = \<lparr>pending = [(incomplete_create 1)
                     \<lparr>op_lastError := Some ''Missing required data for create operation''\<rparr>],
        failed = []\<rparr>"
proof -
  let ?op = "incomplete_create 0"
  have missing: "missing_required_fields ?op"
    by (simp add: missing_required_fields_def incomplete_create_def example_operation_def
        truthy_str_def truthy_num_def)
  have empty: "pending (getQueue empty_world) = []"
    by (simp add: getQueue_def empty_world_def)
  have pend: "getQueue (queued_world [?op]) = \<lparr>pending = [?op], failed = []\<rparr>"
    by (simp add: getQueue_def queued_world_def)
  have thrown: "processOperation quiet_env ?op (queued_world [?op])
      = (Threw ''Missing required data for create operation'', queued_world [?op])"
    by (simp add: processOperation_def processFirefoxOperation_def pushCreateToRaindrop_def
        incomplete_create_def example_operation_def truthy_str_def truthy_num_def)
  have counts: "op_retries ?op = 0" "op_maxRetries ?op = 3"
    and changed: "record_failure ''Missing required data for create operation'' ?op
      = (incomplete_create 1)\<lparr>op_lastError := Some ''Missing required data for create operation''\<rparr>"
    by (simp_all add: incomplete_create_def example_operation_def record_failure_def)
  from missing_fields_are_queued_and_retried [OF missing, of empty_world quiet_env
      "queued_world [?op]" "Copy \<lparr>pending = [?op], failed = []\<rparr>" 0]
  show ?thesis
    using missing by (auto simp: empty pend thrown counts changed)
qed

text \<open>
  Against claim C3 as stated: on a fresh profile a create operation without url, title
  and collection id (\<^verbatim>\<open>maxRetries = 3\<close>) is enqueued, and \<^verbatim>\<open>processQueue\<close> runs three
  times. The operation is retried twice and ends in the failed partition with three
  retries.
\<close>

theorem missing_fields_counterexample:
  "getQueue (processQueue quiet_env (processQueue quiet_env (processQueue quiet_env
      (addToQueue (incomplete_create 0) empty_world))))
     = \<lparr>pending = [],
        failed = [(incomplete_create 3)
                    \<lparr>op_lastError := Some ''Missing required data for create operation''\<rparr>]\<rparr>"
proof -
  let ?m = "''Missing required data for create operation''"
  let ?w0 = "addToQueue (incomplete_create 0) empty_world"
  have q0: "queue_processing_lock ?w0 = None"
    "sync_queue ?w0 = Some \<lparr>pending = [incomplete_create 0], failed = []\<rparr>"
    by (simp_all add: addToQueue_def getQueue_def mutate_and_save_queue_def empty_world_def Let_def)
  have thrown: "processOperation quiet_env ((incomplete_create n)\<lparr>op_lastError := e\<rparr>) w
      = (Threw ?m, w)" for n e w
    by (simp add: processOperation_def processFirefoxOperation_def pushCreateToRaindrop_def
        incomplete_create_def example_operation_def truthy_str_def truthy_num_def)
  have bump: "record_failure ?m ((incomplete_create n)\<lparr>op_lastError := e\<rparr>)
      = (incomplete_create (n + 1))\<lparr>op_lastError := Some ?m\<rparr>"
    and counts: "op_retries ((incomplete_create n)\<lparr>op_lastError := e\<rparr>) = n"
      "op_maxRetries ((incomplete_create n)\<lparr>op_lastError := e\<rparr>) = 3"
    for n e
    by (simp_all add: record_failure_def incomplete_create_def example_operation_def)
  have thrown0: "processOperation quiet_env (incomplete_create 0) w = (Threw ?m, w)" for w
    by (simp add: processOperation_def processFirefoxOperation_def pushCreateToRaindrop_def
        incomplete_create_def example_operation_def truthy_str_def truthy_num_def)
  have bump0: "record_failure ?m (incomplete_create 0)
      = (incomplete_create 1)\<lparr>op_lastError := Some ?m\<rparr>"
    and counts0: "op_retries (incomplete_create 0) = 0" "op_maxRetries (incomplete_create 0) = 3"
    by (simp_all add: record_failure_def incomplete_create_def example_operation_def)
  have round: "queue_processing_lock (processQueue quiet_env w) = None \<and>
      sync_queue (processQueue quiet_env w) =
        Some (if 3 \<le> op_retries operation + 1
              then \<lparr>pending = [], failed = [record_failure ?m operation]\<rparr>
              else \<lparr>pending = [record_failure ?m operation], failed = []\<rparr>)"
    if "queue_processing_lock w = None"
      and "sync_queue w = Some \<lparr>pending = [operation], failed = []\<rparr>"
      and "processOperation quiet_env operation (emit (SetSyncing True)
             (w\<lparr>queue_processing_lock := Some (now quiet_env)\<rparr>))
           = (Threw ?m, emit (SetSyncing True) (w\<lparr>queue_processing_lock := Some (now quiet_env)\<rparr>))"
      and "op_maxRetries operation = 3"
    for w operation
    unfolding processQueue_stored [OF that(1,2)]
    using that(2,3,4)
    by (simp add: process_one_def moveToFailed_def addSyncError_def updateSyncStats_def
        getQueue_def mutate_and_save_queue_def releaseLock_def emit_def Let_def
        slice_last_def MAX_FAILED_QUEUE_def record_failure_def)
  let ?w1 = "processQueue quiet_env ?w0"
  let ?w2 = "processQueue quiet_env ?w1"
  let ?w3 = "processQueue quiet_env ?w2"
  have r1: "queue_processing_lock ?w1 = None"
    "sync_queue ?w1 = Some \<lparr>pending = [(incomplete_create 1)\<lparr>op_lastError := Some ?m\<rparr>],
                            failed = []\<rparr>"
    using round [of ?w0 "incomplete_create 0"] q0
    by (simp_all add: thrown0 bump0 counts0)
  have r2: "queue_processing_lock ?w2 = None"
    "sync_queue ?w2 = Some \<lparr>pending = [(incomplete_create 2)\<lparr>op_lastError := Some ?m\<rparr>],
                            failed = []\<rparr>"
    using round [of ?w1 "(incomplete_create 1)\<lparr>op_lastError := Some ?m\<rparr>"] r1
    by (simp_all add: thrown bump counts)
  have r3: "sync_queue ?w3 = Some \<lparr>pending = [],
      failed = [(incomplete_create 3)\<lparr>op_lastError := Some ?m\<rparr>]\<rparr>"
    using round [of ?w2 "(incomplete_create 2)\<lparr>op_lastError := Some ?m\<rparr>"] r2
    by (simp add: thrown bump counts)
  then show ?thesis
    by (simp add: getQueue_def)
qed

section \<open>Handlers and the link registry\<close>














section \<open>Normalising a URL twice\<close>

text \<open>
  What holds of \<^verbatim>\<open>normalizeUrl\<close> on every platform: a string that the parser rejects is
  lower-cased and stripped of all its trailing slashes, no exception leaves the function,
  and that fallback is idempotent.
\<close>

lemma of_char_to_lower:
  "(of_char (to_lower c) :: nat) =
     (if 65 \<le> (of_char c :: nat) \<and> (of_char c :: nat) \<le> 90 then of_char c + 32 else of_char c)"
  by (simp add: to_lower_def)

lemma to_lower_idem: "to_lower (to_lower c) = to_lower c"
proof -
  have "(of_char (to_lower (to_lower c)) :: nat) = of_char (to_lower c)"
    by (simp add: of_char_to_lower)
  then show ?thesis by simp
qed

lemma toLowerCase_idem: "toLowerCase (toLowerCase s) = toLowerCase s"
  by (simp add: toLowerCase_def to_lower_idem)

lemma to_lower_slash: "to_lower c = CHR ''/'' \<longleftrightarrow> c = CHR ''/''"
proof -
  have "(of_char (to_lower c) :: nat) = of_char (CHR ''/'') \<longleftrightarrow> (of_char c :: nat) = of_char (CHR ''/'')"
    by (simp add: of_char_to_lower)
  then show ?thesis by (simp only: of_char_eq_iff)
qed

lemma toLowerCase_strip:
  "toLowerCase (rev (dropWhile (\<lambda>c. c = CHR ''/'') (rev s)))
     = rev (dropWhile (\<lambda>c. c = CHR ''/'') (rev (toLowerCase s)))"
proof -
  have "map to_lower (dropWhile (\<lambda>c. c = CHR ''/'') xs)
      = dropWhile (\<lambda>c. c = CHR ''/'') (map to_lower xs)" for xs
    by (induction xs) (simp_all add: to_lower_slash)
  from this [of "rev s", symmetric] show ?thesis
    by (simp add: toLowerCase_def rev_map)
qed

lemma strip_idem:
  "dropWhile (\<lambda>c. c = CHR ''/'') (dropWhile (\<lambda>c. c = CHR ''/'') xs)
     = dropWhile (\<lambda>c. c = CHR ''/'') xs"
  by (induction xs) simp_all

lemma normalize_fallback_idempotent:
  "normalize_fallback (normalize_fallback url) = normalize_fallback url"
proof -
  have "toLowerCase (normalize_fallback url) = normalize_fallback url"
    by (simp add: normalize_fallback_def toLowerCase_strip toLowerCase_idem)
  then show ?thesis
    by (simp add: normalize_fallback_def [of "normalize_fallback url"])
      (simp add: normalize_fallback_def strip_idem)
qed

lemma normalizeUrl_malformed:
  "new_URL P url = None \<Longrightarrow> normalizeUrl P url = normalize_fallback url"
  by (simp add: normalizeUrl_def)

text \<open>
  Claim C8. The claim asks that \<^verbatim>\<open>normalizeUrl (normalizeUrl u) = normalizeUrl u\<close> for every
  string. On a string that parses, the code removes one trailing slash from the path
  (\<^verbatim>\<open>pathname.slice(0, -1)\<close>), unlike the fallback, which removes all of them. A path
  that ends in two slashes therefore keeps one after the first normalisation and loses it
  in the second.
\<close>

theorem normalizeUrl_twice_differs:
  "normalizeUrl plain_platform ''https://example.com/a//'' = ''https://example.com/a/'' \<and>
   normalizeUrl plain_platform (normalizeUrl plain_platform ''https://example.com/a//'')
     = ''https://example.com/a''"
  by code_simp

text \<open>
  The stand-in platform on the scenario of the specification (a tracking parameter is
  dropped), on a URL with upper-case letters, unsorted parameters and a fragment, and on a
  string without a scheme.
\<close>

lemma normalizeUrl_examples:
  "normalizeUrl plain_platform ''https://x.com/a?utm_source=y'' = ''https://x.com/a''"
  "normalizeUrl plain_platform ''HTTPS://Example.COM/a/?utm_source=y&b=2&a=1#frag''
     = ''https://example.com/a?a=1&b=2''"
  "normalizeUrl plain_platform ''Example.com/Path///'' = ''example.com/path''"
  by code_simp+

section \<open>Incremental pull and linked URLs\<close>
















lemma to_hex_not_empty: "to_hex n \<noteq> []"
  by (subst to_hex.simps) simp

lemma computeRaindropHash_not_empty [simp]:
  "computeRaindropHash P link title \<noteq> []" "[] \<noteq> computeRaindropHash P link title"
  using to_hex_not_empty [of "unat (foldl hash_step 5381 (normalizeUrl P link @ ''|'' @ trim title))"]
  by (auto simp: computeRaindropHash_def hashString_def)

lemma plain_normal_forms:
  "normalizeUrl plain_platform ''https://example.com/a'' = ''https://example.com/a''"
  "normalizeUrl plain_platform ''https://example.com/a/'' = ''https://example.com/a''"
  "normalizeUrl plain_platform ''https://example.com/b'' = ''https://example.com/b''"
  by code_simp+

lemmas pull_defs = pullSyncForMapping_def pull_raindrops_def pull_raindrop_def pull_deleted_def
  pull_start_def initial_linkedUrls_def linksByRaindropId_def getBookmarkLinksForMapping_def
  updateFolderMapping_def getFolderMappings_def saveFolderMappings_def pulled_link_def
  emit_def addBookmarkLink_def updateBookmarkLink_def removeBookmarkLink_def
  saveBookmarkLinks_def getBookmarkLinks_def



text \<open>
  The theorem above is about a pass that has updated no link. The round that moves a link
  to the URL its remote item has now does not put that URL into \<^verbatim>\<open>linkedUrls\<close>, as the
  round that creates a link does. In the pass below the stored link for item 1 is moved
  to the URL that item 2 has as well, and item 2 then gets a bookmark and a link.
\<close>

lemma pull_after_update_example:
  "map (\<lambda>l. (l_raindropId l, l_url l)) (getBookmarkLinks (snd (pullSyncForMapping
       (fetch_env moved_items) (example_mapping ''M1'' ''folder1'' 10) stale_world)))
     = [(1, ''https://example.com/b''), (2, ''https://example.com/b'')] \<and>
   trace (snd (pullSyncForMapping (fetch_env moved_items)
       (example_mapping ''M1'' ''folder1'' 10) stale_world))
     = [GetAllRaindropsInCollection 10,
        BookmarksUpdate ''f1'' ''B'' ''https://example.com/b'',
        BookmarksCreate ''folder1'' ''B again'' ''https://example.com/b'', GenerateId]"
  by (simp add: pull_defs Let_def fetch_env_def quiet_env_def moved_items_def
      stale_world_def example_link_def example_mapping_def empty_world_def plain_normal_forms)

end
